theory Spec2Isabelle
  imports Complex_Main
begin

section \<open>Python values, errors and results\<close>

text \<open>
  The repository is Python. Configuration records are dictionaries from option names to
  dynamically typed values; the values that occur are \<open>None\<close>, booleans, integers, floats,
  strings and lists. Floats are embedded as real numbers: rounding, infinities and NaN
  are outside the embedding. An exception is a value of \<open>error\<close>; a computation that may
  raise returns \<open>error + 'a\<close>, with \<open>Inl\<close> the exception.
\<close>

datatype pyval =
    PNone
  | PBool bool
  | PInt int
  | PFloat real
  | PStr string
  | PList "pyval list"

datatype error =
    KeyError string
  | AttributeError string
  | TypeError
  | ZeroDivisionError
  | IndexError
  | AssertionError
  | ValueError string
  | ModuleNotFoundError string

type_synonym conf = "string \<Rightarrow> pyval option"

definition rbind :: "error + 'a \<Rightarrow> ('a \<Rightarrow> error + 'b) \<Rightarrow> error + 'b" where
  "rbind m f = (case m of Inl e \<Rightarrow> Inl e | Inr v \<Rightarrow> f v)"

text \<open>\<open>xs[i]\<close> on a Python list, for the non-negative indices \<open>range\<close> produces.\<close>

definition item :: "'a list \<Rightarrow> nat \<Rightarrow> error + 'a" where
  "item xs i = (if i < length xs then Inr (xs ! i) else Inl IndexError)"

section \<open>The trading-strategy evaluation (core/ltsf\_runner.py)\<close>

text \<open>
  \<open>LTSFRunner.evaluate_trading_strategy\<close>. The loop variables are the fields of
  \<open>strategy_state\<close>; \<open>strategy_day\<close> is one iteration of the loop body for the index \<open>i\<close>,
  \<open>strategy_loop\<close> runs the body over \<open>range(len(predictions_tomorrow))\<close>. A price list
  shorter than the predictions raises \<open>IndexError\<close>, a today-price \<open>0\<close> raises
  \<open>ZeroDivisionError\<close> (the prices are Python floats taken with \<open>.item()\<close>).
  \<open>np.mean\<close> of an empty list is NaN, which is \<open>None\<close> here.
\<close>

record strategy_state =
  daily_returns :: "real list"
  cumulative :: real
  total :: real
  losses :: nat

record metrics =
  average_daily_return :: "real option"
  cumulative_return :: real
  loss_days :: nat
  total_profits :: real

definition np_mean :: "real list \<Rightarrow> real option" where
  "np_mean xs = (if xs = [] then None else Some (sum_list xs / real (length xs)))"

definition strategy_day ::
  "real list \<Rightarrow> real list \<Rightarrow> real list \<Rightarrow> nat \<Rightarrow> strategy_state \<Rightarrow> error + strategy_state" where
  "strategy_day predictions_tomorrow true_prices_tomorrow true_prices_today i st =
     rbind (item predictions_tomorrow i) (\<lambda>predicted_price.
     rbind (item true_prices_tomorrow i) (\<lambda>true_price_tomorrow.
     rbind (item true_prices_today i) (\<lambda>true_price_today.
       let profit =
             (if predicted_price > true_price_today then true_price_tomorrow - true_price_today
              else if predicted_price < true_price_today then true_price_today - true_price_tomorrow
              else 0)
       in if true_price_today = 0 then Inl ZeroDivisionError
          else
            let daily_return = profit / true_price_today
            in Inr \<lparr> daily_returns = daily_returns st @ [daily_return],
                     cumulative = cumulative st * (1 + daily_return),
                     total = total st + profit,
                     losses = (if daily_return < 0 then losses st + 1 else losses st) \<rparr>)))"

fun strategy_loop ::
  "real list \<Rightarrow> real list \<Rightarrow> real list \<Rightarrow> nat list \<Rightarrow> strategy_state \<Rightarrow> error + strategy_state" where
  "strategy_loop P T D [] st = Inr st"
| "strategy_loop P T D (i # is) st = rbind (strategy_day P T D i st) (strategy_loop P T D is)"

definition evaluate_trading_strategy ::
  "real list \<Rightarrow> real list \<Rightarrow> real list \<Rightarrow> error + metrics" where
  "evaluate_trading_strategy predictions_tomorrow true_prices_tomorrow true_prices_today =
     rbind (strategy_loop predictions_tomorrow true_prices_tomorrow true_prices_today
              [0 ..< length predictions_tomorrow]
              \<lparr> daily_returns = [], cumulative = 1, total = 0, losses = 0 \<rparr>)
       (\<lambda>st. Inr \<lparr> average_daily_return = np_mean (daily_returns st),
                    cumulative_return = cumulative st - 1,
                    loss_days = losses st,
                    total_profits = total st \<rparr>)"

text \<open>
  The specification's description of one day, written from its words: the signed profit
  of the position and the return on today's price.
\<close>

definition spec_profit :: "real \<Rightarrow> real \<Rightarrow> real \<Rightarrow> real" where
  "spec_profit predicted tomorrow today =
     (if predicted > today then tomorrow - today
      else if predicted < today then today - tomorrow
      else 0)"

definition spec_profits :: "real list \<Rightarrow> real list \<Rightarrow> real list \<Rightarrow> real list" where
  "spec_profits P T D = map (\<lambda>i. spec_profit (P ! i) (T ! i) (D ! i)) [0 ..< length P]"

definition spec_returns :: "real list \<Rightarrow> real list \<Rightarrow> real list \<Rightarrow> real list" where
  "spec_returns P T D = map (\<lambda>i. spec_profit (P ! i) (T ! i) (D ! i) / D ! i) [0 ..< length P]"

section \<open>Configuration fusion and the training function (train.py)\<close>

text \<open>
  Python's truth value of a configuration value, and \<open>os.path.join\<close> of \<open>posixpath\<close>: a
  component that starts with the separator replaces the path built so far.
\<close>

fun py_truthy :: "pyval \<Rightarrow> bool" where
  "py_truthy PNone = False"
| "py_truthy (PBool b) = b"
| "py_truthy (PInt i) = (i \<noteq> 0)"
| "py_truthy (PFloat r) = (r \<noteq> 0)"
| "py_truthy (PStr s) = (s \<noteq> [])"
| "py_truthy (PList vs) = (vs \<noteq> [])"

definition join_step :: "string \<Rightarrow> string \<Rightarrow> string" where
  "join_step path b =
     (if b \<noteq> [] \<and> hd b = CHR ''/'' then b
      else if path = [] \<or> last path = CHR ''/'' then path @ b
      else path @ ''/'' @ b)"

definition os_path_join :: "string \<Rightarrow> string list \<Rightarrow> string" where
  "os_path_join a p = foldl join_step a p"

text \<open>
  \<open>conf[k]\<close> on a dictionary raises \<open>KeyError\<close> for an absent key.
\<close>

definition getitem :: "conf \<Rightarrow> string \<Rightarrow> error + pyval" where
  "getitem c k = (case c k of None \<Rightarrow> Inl (KeyError k) | Some v \<Rightarrow> Inr v)"

text \<open>
  \<open>load_config\<close>. Loading the experiment file and importing the two base-configuration
  modules is the work of the import system: the loaded \<open>exp_conf\<close>, the \<open>task_conf\<close>
  record and the attributes of \<open>config.base_conf.datasets\<close> (a lookup by attribute name)
  are arguments, as is \<open>fmt\<close>, the rendering \<open>'{}'.format(v)\<close> of a value.
  \<open>{**task_conf, **data_conf}\<close> followed by \<open>update(exp_conf)\<close> is map addition, the right
  operand winning.
\<close>

definition load_config ::
  "conf \<Rightarrow> (string \<Rightarrow> conf option) \<Rightarrow> (pyval \<Rightarrow> string) \<Rightarrow> conf \<Rightarrow> error + conf" where
  "load_config task_conf data_conf_module fmt exp_conf =
     rbind (getitem exp_conf ''dataset_name'') (\<lambda>dataset_name.
       case data_conf_module (fmt dataset_name @ ''_conf'') of
         None \<Rightarrow> Inl (AttributeError (fmt dataset_name @ ''_conf''))
       | Some data_conf \<Rightarrow>
           let fused_conf = task_conf ++ data_conf
           in Inr (fused_conf ++ exp_conf))"

text \<open>
  \<open>train_func\<close>, lines 65 to 77: the override loop, the hash, the seed, the save
  directory, the logger and the \<open>exp_dir\<close> key. \<open>cal_conf_hash\<close> lives in \<open>core.util\<close> and
  is an argument (a function of the configuration and the hash length). The record
  returned keeps what the function passed to \<open>cal_conf_hash\<close> (\<open>hash_input\<close>), what it
  passed to \<open>seed_everything\<close>, the logger it built and the configuration as it stands
  after line 77. The trainer, the data module and the runner built from that
  configuration afterwards belong to the training framework.
\<close>

datatype logger =
    WandbLogger string string string
  | CSVLogger string string string

record train_setup =
  hash_input :: conf
  seeded :: pyval
  run_logger :: logger
  final_conf :: conf

definition as_path :: "pyval \<Rightarrow> error + string" where
  "as_path v = (case v of PStr s \<Rightarrow> Inr s | _ \<Rightarrow> Inl TypeError)"

definition train_func ::
  "(conf \<Rightarrow> nat \<Rightarrow> string) \<Rightarrow> (pyval \<Rightarrow> string) \<Rightarrow> conf option \<Rightarrow> conf \<Rightarrow> error + train_setup" where
  "train_func cal_conf_hash fmt hyper_conf conf0 =
     (let conf1 = (case hyper_conf of None \<Rightarrow> conf0 | Some h \<Rightarrow> conf0 ++ h);
          conf_hash = cal_conf_hash conf1 10;
          conf2 = conf1(''conf_hash'' \<mapsto> PStr conf_hash)
      in rbind (getitem conf2 ''seed'') (\<lambda>seed.
         rbind (getitem conf2 ''save_root'') (\<lambda>save_root.
         rbind (getitem conf2 ''model_name'') (\<lambda>model_name.
         rbind (getitem conf2 ''dataset_name'') (\<lambda>dataset_name.
         rbind (as_path save_root) (\<lambda>sroot.
           let save_dir = os_path_join sroot [fmt model_name @ ''_'' @ fmt dataset_name];
               version = ''seed_'' @ fmt seed;
               lg = (if (case conf2 ''use_wandb'' of None \<Rightarrow> False | Some w \<Rightarrow> py_truthy w)
                     then WandbLogger save_dir conf_hash version
                     else CSVLogger save_dir conf_hash version);
               conf3 = conf2(''exp_dir'' \<mapsto> PStr (os_path_join save_dir [conf_hash, version]))
           in Inr \<lparr> hash_input = conf1, seeded = seed, run_logger = lg,
                    final_conf = conf3 \<rparr>))))))"

text \<open>
  The rendering of the values whose \<open>str\<close> needs neither float formatting nor \<open>repr\<close>:
  a string is itself, an integer its decimal digits. It instantiates \<open>fmt\<close> in the
  examples.
\<close>

fun digits :: "nat \<Rightarrow> string" where
  "digits n =
     (if n < 10 then [''0123456789'' ! n]
      else digits (n div 10) @ [''0123456789'' ! (n mod 10)])"

definition plain_format :: "pyval \<Rightarrow> string" where
  "plain_format v =
     (case v of
        PStr s \<Rightarrow> s
      | PInt i \<Rightarrow> (if i < 0 then ''-'' @ digits (nat (- i)) else digits (nat i))
      | PBool b \<Rightarrow> (if b then ''True'' else ''False'')
      | PNone \<Rightarrow> ''None''
      | _ \<Rightarrow> [])"

text \<open>
  Example configurations, in the shape of the ones \<open>__main__\<close> builds: a task record, a
  dataset record, an experiment record as \<open>generate_config_files\<close> writes it, the
  \<open>training_conf\<close> override, and a stand-in for \<open>cal_conf_hash\<close> whose value shows whether
  its input holds the key \<open>exp_dir\<close>.
\<close>

definition example_task_conf :: conf where
  "example_task_conf =
     [''optimizer'' \<mapsto> PStr ''Adam'', ''lr'' \<mapsto> PFloat (1 / 100), ''hist_len'' \<mapsto> PInt 96]"

definition example_data_conf :: conf where
  "example_data_conf = [''lr'' \<mapsto> PFloat (1 / 200), ''hist_len'' \<mapsto> PInt 30]"

definition example_exp_conf :: conf where
  "example_exp_conf =
     [''model_name'' \<mapsto> PStr ''DenseRMoK'', ''dataset_name'' \<mapsto> PStr ''AAPL'',
      ''hist_len'' \<mapsto> PInt 60]"

definition example_training_conf :: conf where
  "example_training_conf =
     [''seed'' \<mapsto> PInt 1, ''data_root'' \<mapsto> PStr ''/dataset/AAPL'',
      ''save_root'' \<mapsto> PStr ''save'', ''devices'' \<mapsto> PStr ''0,'',
      ''use_wandb'' \<mapsto> PInt 0, ''hist_len'' \<mapsto> PInt 48]"

definition example_datasets :: "string \<Rightarrow> conf option" where
  "example_datasets = [''AAPL_conf'' \<mapsto> example_data_conf]"

definition example_hash :: "conf \<Rightarrow> nat \<Rightarrow> string" where
  "example_hash c n = take n (case c ''exp_dir'' of None \<Rightarrow> ''0000000000'' | Some v \<Rightarrow> ''1111111111'')"

definition example_fused_conf :: conf where
  "example_fused_conf = (example_task_conf ++ example_data_conf) ++ example_exp_conf"

section \<open>Optimizer and scheduler construction (core/ltsf\_runner.py)\<close>

text \<open>
  \<open>self.hparams.k\<close> raises \<open>AttributeError\<close> for a key the configuration does not hold.
\<close>

definition hp :: "conf \<Rightarrow> string \<Rightarrow> error + pyval" where
  "hp hparams k = (case hparams k of None \<Rightarrow> Inl (AttributeError k) | Some v \<Rightarrow> Inr v)"

text \<open>
  Python's comparison and arithmetic operators on configuration values. Booleans,
  integers and floats compare and combine as numbers; strings and lists compare
  lexicographically with their own kind; every other pairing raises \<open>TypeError\<close> under an
  ordering or arithmetic operator and is unequal under \<open>==\<close>. \<open>a <= b\<close> is \<open>a < b or a == b\<close>
  on these values, with the \<open>TypeError\<close> of \<open><\<close>.
\<close>

fun num_of :: "pyval \<Rightarrow> real option" where
  "num_of (PBool b) = Some (if b then 1 else 0)"
| "num_of (PInt i) = Some (real_of_int i)"
| "num_of (PFloat r) = Some r"
| "num_of _ = None"

fun int_of :: "pyval \<Rightarrow> int option" where
  "int_of (PBool b) = Some (if b then 1 else 0)"
| "int_of (PInt i) = Some i"
| "int_of _ = None"

fun str_lt :: "string \<Rightarrow> string \<Rightarrow> bool" where
  "str_lt [] [] = False"
| "str_lt [] (y # ys) = True"
| "str_lt (x # xs) [] = False"
| "str_lt (x # xs) (y # ys) =
     ((of_char x :: nat) < of_char y \<or> (x = y \<and> str_lt xs ys))"

fun py_eq :: "pyval \<Rightarrow> pyval \<Rightarrow> bool" where
  "py_eq PNone PNone = True"
| "py_eq (PStr a) (PStr b) = (a = b)"
| "py_eq (PList []) (PList []) = True"
| "py_eq (PList (x # xs)) (PList (y # ys)) = (py_eq x y \<and> py_eq (PList xs) (PList ys))"
| "py_eq (PList xs) (PList ys) = False"
| "py_eq a b = (case (num_of a, num_of b) of (Some x, Some y) \<Rightarrow> x = y | _ \<Rightarrow> False)"

fun py_lt :: "pyval \<Rightarrow> pyval \<Rightarrow> error + bool" where
  "py_lt (PStr a) (PStr b) = Inr (str_lt a b)"
| "py_lt (PList []) (PList []) = Inr False"
| "py_lt (PList []) (PList (y # ys)) = Inr True"
| "py_lt (PList (x # xs)) (PList []) = Inr False"
| "py_lt (PList (x # xs)) (PList (y # ys)) =
     (if py_eq x y then py_lt (PList xs) (PList ys) else py_lt x y)"
| "py_lt a b =
     (case (num_of a, num_of b) of (Some x, Some y) \<Rightarrow> Inr (x < y) | _ \<Rightarrow> Inl TypeError)"

definition py_le :: "pyval \<Rightarrow> pyval \<Rightarrow> error + bool" where
  "py_le a b = rbind (py_lt a b) (\<lambda>lt. Inr (lt \<or> py_eq a b))"

definition py_sub :: "pyval \<Rightarrow> pyval \<Rightarrow> error + pyval" where
  "py_sub a b =
     (case (int_of a, int_of b) of
        (Some x, Some y) \<Rightarrow> Inr (PInt (x - y))
      | _ \<Rightarrow> (case (num_of a, num_of b) of
                (Some x, Some y) \<Rightarrow> Inr (PFloat (x - y))
              | _ \<Rightarrow> Inl TypeError))"

definition py_truediv :: "pyval \<Rightarrow> pyval \<Rightarrow> error + pyval" where
  "py_truediv a b =
     (case (num_of a, num_of b) of
        (Some x, Some y) \<Rightarrow> (if y = 0 then Inl ZeroDivisionError else Inr (PFloat (x / y)))
      | _ \<Rightarrow> Inl TypeError)"

text \<open>
  \<open>wsd_lr_lambda\<close>, the closure of the \<open>WSD\<close> branch; \<open>epoch\<close> is the integer the scheduler
  passes. Each chained comparison reads its last operand only when the first
  comparison holds. An epoch beyond \<open>max_epochs\<close> falls through all three tests and the
  function returns \<open>None\<close>.
\<close>

definition wsd_lr_lambda :: "conf \<Rightarrow> int \<Rightarrow> error + pyval" where
  "wsd_lr_lambda hparams epoch =
     rbind (hp hparams ''lr_warmup_end_epochs'') (\<lambda>warmup_end.
     rbind (py_lt (PInt epoch) warmup_end) (\<lambda>in_warmup.
       if in_warmup then py_truediv (PInt (epoch + 1)) warmup_end
       else
         rbind (py_le warmup_end (PInt epoch)) (\<lambda>past_warmup.
         rbind (if past_warmup
                then rbind (hp hparams ''lr_stable_end_epochs'') (\<lambda>stable_end.
                       py_lt (PInt epoch) stable_end)
                else Inr False) (\<lambda>in_stable.
           if in_stable then Inr (PFloat 1)
           else
             rbind (hp hparams ''lr_stable_end_epochs'') (\<lambda>stable_end.
             rbind (py_le stable_end (PInt epoch)) (\<lambda>past_stable.
             rbind (if past_stable
                    then rbind (hp hparams ''max_epochs'') (\<lambda>max_epochs.
                           py_le (PInt epoch) max_epochs)
                    else Inr False) (\<lambda>in_last.
               if in_last
               then rbind (py_sub (PInt (epoch + 1)) stable_end) (\<lambda>numerator.
                    rbind (hp hparams ''max_epochs'') (\<lambda>max_epochs.
                    rbind (py_sub max_epochs stable_end) (\<lambda>denominator.
                      py_truediv numerator denominator)))
               else Inr PNone)))))))"

text \<open>
  \<open>configure_optimizers\<close>. The optimizers and schedulers of the framework are
  constructors holding the arguments the code passes. \<open>optimizer_branch\<close> is the first
  chain of tests (lines 177 to 186), \<open>scheduler_branch\<close> the second (lines 188 to 220),
  and \<open>wsd_invariant\<close> the condition of the \<open>assert\<close> on line 205, which raises
  \<open>AssertionError\<close> when the condition is false.
\<close>

datatype optimizer =
    Adam pyval pyval
  | AdamW pyval "pyval \<times> pyval" pyval
  | LBFGS pyval pyval

datatype scheduler =
    StepLR optimizer pyval pyval
  | MultiStepLR optimizer pyval pyval
  | ReduceLROnPlateau optimizer string pyval pyval
  | LambdaLR optimizer "int \<Rightarrow> error + pyval"

record scheduler_dict =
  scheduler :: scheduler
  monitor :: "pyval option"

record optimizers =
  optimizer :: optimizer
  lr_scheduler :: scheduler_dict

definition optimizer_branch :: "conf \<Rightarrow> error + optimizer" where
  "optimizer_branch hparams =
     rbind (hp hparams ''optimizer'') (\<lambda>name.
       if py_eq name (PStr ''Adam'')
       then rbind (hp hparams ''lr'') (\<lambda>lr.
            rbind (hp hparams ''optimizer_weight_decay'') (\<lambda>weight_decay.
              Inr (Adam lr weight_decay)))
       else if py_eq name (PStr ''AdamW'')
       then rbind (hp hparams ''lr'') (\<lambda>lr.
              Inr (AdamW lr (PFloat (9 / 10), PFloat (95 / 100)) (PFloat (1 / 100000))))
       else if py_eq name (PStr ''LBFGS'')
       then rbind (hp hparams ''lr'') (\<lambda>lr.
            rbind (hp hparams ''lr_max_iter'') (\<lambda>max_iter.
              Inr (LBFGS lr max_iter)))
       else Inl (ValueError ''Invalid optimizer type!''))"

definition wsd_invariant :: "conf \<Rightarrow> error + bool" where
  "wsd_invariant hparams =
     rbind (hp hparams ''lr_warmup_end_epochs'') (\<lambda>warmup_end.
     rbind (hp hparams ''lr_stable_end_epochs'') (\<lambda>stable_end.
     rbind (py_lt warmup_end stable_end) (\<lambda>first.
       if first
       then rbind (hp hparams ''max_epochs'') (\<lambda>max_epochs. py_lt stable_end max_epochs)
       else Inr False)))"

definition scheduler_branch :: "conf \<Rightarrow> optimizer \<Rightarrow> error + scheduler_dict" where
  "scheduler_branch hparams opt =
     rbind (hp hparams ''lr_scheduler'') (\<lambda>name.
       if py_eq name (PStr ''StepLR'')
       then rbind (hp hparams ''lr_step_size'') (\<lambda>step_size.
            rbind (hp hparams ''lr_gamma'') (\<lambda>gamma.
              Inr \<lparr> scheduler = StepLR opt step_size gamma, monitor = None \<rparr>))
       else if py_eq name (PStr ''MultiStepLR'')
       then rbind (hp hparams ''milestones'') (\<lambda>milestones.
            rbind (hp hparams ''gamma'') (\<lambda>gamma.
              Inr \<lparr> scheduler = MultiStepLR opt milestones gamma, monitor = None \<rparr>))
       else if py_eq name (PStr ''ReduceLROnPlateau'')
       then rbind (hp hparams ''lrs_factor'') (\<lambda>factor.
            rbind (hp hparams ''lrs_patience'') (\<lambda>patience.
            rbind (hp hparams ''val_metric'') (\<lambda>val_metric.
              Inr \<lparr> scheduler = ReduceLROnPlateau opt ''min'' factor patience,
                     monitor = Some val_metric \<rparr>)))
       else if py_eq name (PStr ''WSD'')
       then rbind (wsd_invariant hparams) (\<lambda>holds.
              if holds
              then Inr \<lparr> scheduler = LambdaLR opt (wsd_lr_lambda hparams), monitor = None \<rparr>
              else Inl AssertionError)
       else Inl (ValueError ''Invalid lr_scheduler type!''))"

definition configure_optimizers :: "conf \<Rightarrow> error + optimizers" where
  "configure_optimizers hparams =
     rbind (optimizer_branch hparams) (\<lambda>opt.
     rbind (scheduler_branch hparams opt) (\<lambda>sched.
       Inr \<lparr> optimizer = opt, lr_scheduler = sched \<rparr>))"

text \<open>
  The multiplier of the last phase as the specification writes it, and example
  configurations for the \<open>WSD\<close> scheduler.
\<close>

definition spec_post_stable :: "int \<Rightarrow> int \<Rightarrow> int \<Rightarrow> real" where
  "spec_post_stable stable_end max_epochs e =
     (real_of_int e + 1 - real_of_int stable_end) / (real_of_int max_epochs - real_of_int stable_end)"

definition wsd_conf :: "int \<Rightarrow> int \<Rightarrow> int \<Rightarrow> conf" where
  "wsd_conf warmup_end stable_end max_epochs =
     [''optimizer'' \<mapsto> PStr ''AdamW'', ''lr'' \<mapsto> PFloat (1 / 1000),
      ''optimizer_weight_decay'' \<mapsto> PFloat (1 / 10),
      ''lr_scheduler'' \<mapsto> PStr ''WSD'', ''lr_warmup_end_epochs'' \<mapsto> PInt warmup_end,
      ''lr_stable_end_epochs'' \<mapsto> PInt stable_end, ''max_epochs'' \<mapsto> PInt max_epochs]"

section \<open>Model construction (core/ltsf\_runner.py)\<close>

text \<open>
  \<open>load_model\<close> and \<open>instancialize\<close>. The package \<open>core.model\<close> is not part of the sources
  at hand: \<open>import_module\<close> stands for \<open>importlib.import_module\<close> relative to that
  package, from the relative module name to the module found, if any, and a module
  maps an attribute name to the constructor parameter names (after \<open>self\<close>) of the
  class bound to it. \<open>ModuleNotFoundError\<close> carries the name of the module that was not
  found, \<open>AttributeError\<close> the attribute. The model built is the class name with the keyword
  arguments passed to its constructor: the constructor parameters that are keys of the
  configuration.
\<close>

type_synonym py_module = "string \<Rightarrow> string list option"

record model_instance =
  model_class :: string
  model_kwargs :: "(string \<times> pyval) list"

definition instancialize :: "conf \<Rightarrow> string \<Rightarrow> string list \<Rightarrow> model_instance" where
  "instancialize hparams Model model_class_args =
     \<lparr> model_class = Model,
       model_kwargs =
         List.map_filter (\<lambda>arg. map_option (Pair arg) (hparams arg)) model_class_args \<rparr>"

definition load_model :: "(string \<Rightarrow> py_module option) \<Rightarrow> conf \<Rightarrow> error + model_instance" where
  "load_model import_module hparams =
     rbind (hp hparams ''model_name'') (\<lambda>model_name.
       case model_name of
         PStr name \<Rightarrow>
           (case import_module (''.'' @ name) of
              None \<Rightarrow> Inl (ModuleNotFoundError (''core.model.'' @ name))
            | Some m \<Rightarrow>
                (case m name of
                   None \<Rightarrow> Inl (AttributeError name)
                 | Some model_class_args \<Rightarrow> Inr (instancialize hparams name model_class_args)))
       | _ \<Rightarrow> Inl TypeError)"

text \<open>
  An example package with one module \<open>DenseRMoK\<close> that defines the class \<open>DenseRMoK\<close>, and
  one module \<open>layers\<close> that defines no class of its own name.
\<close>

definition example_package :: "string \<Rightarrow> py_module option" where
  "example_package =
     [''.DenseRMoK'' \<mapsto> [''DenseRMoK'' \<mapsto> [''hist_len'', ''pred_len'', ''revin_affine'']],
      ''.layers'' \<mapsto> [''RevIN'' \<mapsto> [''num_features'']]]"

section \<open>Batch generation of configuration files (train.py)\<close>

text \<open>
  \<open>template_content\<close> is the format string of the source, cut at its two replacement
  fields; \<open>format_template\<close> is \<open>str.format\<close> with keyword arguments, which raises \<open>KeyError\<close>
  for a field without argument. Character \<open>0x0A\<close> is the newline, \<open>0x22\<close> the double quote
  and \<open>0x27\<close> the single quote.
\<close>

datatype segment = Lit string | Field string

fun format_template :: "segment list \<Rightarrow> (string \<times> string) list \<Rightarrow> error + string" where
  "format_template [] kwargs = Inr []"
| "format_template (Lit s # segs) kwargs =
     rbind (format_template segs kwargs) (\<lambda>rest. Inr (s @ rest))"
| "format_template (Field f # segs) kwargs =
     (case map_of kwargs f of
        None \<Rightarrow> Inl (KeyError f)
      | Some v \<Rightarrow> rbind (format_template segs kwargs) (\<lambda>rest. Inr (v @ rest)))"

definition output_dir :: string where
  "output_dir = ''/config/reproduce_conf/RMoK''"

definition template_content :: "segment list" where
  "template_content =
     [Lit (''exp_conf = dict('' @ [CHR 0x0A] @ ''    model_name='' @ [CHR 0x22]
          @ ''DenseRMoK'' @ [CHR 0x22] @ '','' @ [CHR 0x0A] @ ''    dataset_name=''
          @ [CHR 0x27]),
      Field ''dataset'',
      Lit ([CHR 0x27] @ '',     # Set to ''),
      Field ''dataset'',
      Lit ('' to point to your new dataset'' @ [CHR 0x0A] @ [CHR 0x0A]
          @ ''    hist_len=60,'' @ [CHR 0x0A] @ ''    pred_len=1,'' @ [CHR 0x0A]
          @ [CHR 0x0A]
          @ ''    revin_affine=False,       # Retain other configurations as in ETTh1''
          @ [CHR 0x0A] @ [CHR 0x0A] @ ''    lr=0.001,                 # Learning rate''
          @ [CHR 0x0A] @ '')'' @ [CHR 0x0A])]"

definition ticker_symbols :: "string list" where
  "ticker_symbols =
     [''AAPL'', ''MSFT'', ''ORCL'', ''AMD'', ''CSCO'', ''ADBE'',
      ''IBM'', ''TXN'', ''AMAT'', ''MU'', ''ADI'', ''INTC'',
      ''LRCX'', ''KLAC'', ''MSI'', ''GLW'', ''HPQ'', ''TYL'',
      ''PTC'', ''WDC'']"

text \<open>
  \<open>generate_config_files\<close>. The file system is a map from paths to file contents, and
  opening a file for writing replaces its content; the console is the list of lines
  printed. Directories (\<open>os.makedirs\<close>) and the failures of the operating system are not
  part of the state.
\<close>

record file_system =
  files :: "string \<Rightarrow> string option"
  console :: "string list"

definition new_file_name :: "string \<Rightarrow> string" where
  "new_file_name symbol = os_path_join output_dir [symbol @ ''_30for1.py'']"

fun generate_loop :: "string list \<Rightarrow> file_system \<Rightarrow> error + file_system" where
  "generate_loop [] st = Inr st"
| "generate_loop (symbol # rest) st =
     rbind (format_template template_content [(''dataset'', symbol)]) (\<lambda>new_content.
       generate_loop rest
         \<lparr> files = (files st)(new_file_name symbol \<mapsto> new_content),
           console = console st @ [''Created configuration file: '' @ new_file_name symbol] \<rparr>)"

definition generate_config_files :: "file_system \<Rightarrow> error + file_system" where
  "generate_config_files st = generate_loop ticker_symbols st"

text \<open>
  The content of the file for one symbol as the specification describes it, line by
  line: the record with its six fields.
\<close>

definition spec_config_lines :: "string \<Rightarrow> string list" where
  "spec_config_lines symbol =
     [''exp_conf = dict('',
      ''    model_name='' @ [CHR 0x22] @ ''DenseRMoK'' @ [CHR 0x22] @ '','',
      ''    dataset_name='' @ [CHR 0x27] @ symbol @ [CHR 0x27] @ '',     # Set to '' @ symbol @ '' to point to your new dataset'',
      [],
      ''    hist_len=60,'',
      ''    pred_len=1,'',
      [],
      ''    revin_affine=False,       # Retain other configurations as in ETTh1'',
      [],
      ''    lr=0.001,                 # Learning rate'',
      '')'']"

definition spec_config_text :: "string \<Rightarrow> string" where
  "spec_config_text symbol = concat (map (\<lambda>l. l @ [CHR 0x0A]) (spec_config_lines symbol))"

section \<open>Accumulation of the test outputs (core/ltsf\_runner.py)\<close>

text \<open>
  The five accumulator attributes of a runner; \<open>None\<close> is an attribute that does not
  exist (\<open>hasattr\<close> is false), which is the state \<open>__init__\<close> leaves. \<open>test_output\<close> holds the
  scalars a test step extracts with \<open>.item()\<close> from the outputs of \<open>forward\<close> and of the loss
  function, which belong to the model and the framework.
\<close>

record runner =
  predictions_tomorrow :: "real list option"
  true_prices_tomorrow :: "real list option"
  true_prices_today :: "real list option"
  confidences :: "real list option"
  custom_losses :: "real list option"

record test_output =
  predicted_price_tomorrow :: real
  true_price_tomorrow :: real
  true_price_today :: real
  confidence_score :: real
  custom_loss :: real

definition new_runner :: runner where
  "new_runner =
     \<lparr> predictions_tomorrow = None, true_prices_tomorrow = None, true_prices_today = None,
       confidences = None, custom_losses = None \<rparr>"

definition append_to :: "string \<Rightarrow> real list option \<Rightarrow> real \<Rightarrow> error + real list" where
  "append_to name attr v =
     (case attr of None \<Rightarrow> Inl (AttributeError name) | Some xs \<Rightarrow> Inr (xs @ [v]))"

definition test_step :: "runner \<Rightarrow> test_output \<Rightarrow> error + runner" where
  "test_step self out =
     (let self1 =
            (if predictions_tomorrow self = None
             then self \<lparr> predictions_tomorrow := Some [], true_prices_tomorrow := Some [],
                         true_prices_today := Some [], confidences := Some [],
                         custom_losses := Some [] \<rparr>
             else self)
      in rbind (append_to ''predictions_tomorrow'' (predictions_tomorrow self1)
                  (predicted_price_tomorrow out)) (\<lambda>p.
         rbind (append_to ''true_prices_tomorrow'' (true_prices_tomorrow self1)
                  (true_price_tomorrow out)) (\<lambda>t.
         rbind (append_to ''true_prices_today'' (true_prices_today self1)
                  (true_price_today out)) (\<lambda>d.
         rbind (append_to ''confidences'' (confidences self1) (confidence_score out)) (\<lambda>c.
         rbind (append_to ''custom_losses'' (custom_losses self1) (custom_loss out)) (\<lambda>l.
           Inr (self1 \<lparr> predictions_tomorrow := Some p, true_prices_tomorrow := Some t,
                         true_prices_today := Some d, confidences := Some c,
                         custom_losses := Some l \<rparr>)))))))"

text \<open>
  \<open>on_test_epoch_end\<close>: the guard on the three price attributes, the evaluation, and the
  two further attributes the plot reads. It returns the runner as it leaves it together
  with the metrics it logs, if any. The plotting function of \<open>core.util\<close> receives the
  lists as arguments and its drawing is not modelled.
\<close>

definition on_test_epoch_end :: "runner \<Rightarrow> error + runner \<times> metrics option" where
  "on_test_epoch_end self =
     (case (predictions_tomorrow self, true_prices_tomorrow self, true_prices_today self) of
        (Some P, Some T, Some D) \<Rightarrow>
          rbind (evaluate_trading_strategy P T D) (\<lambda>evaluation_metrics.
            case confidences self of
              None \<Rightarrow> Inl (AttributeError ''confidences'')
            | Some c \<Rightarrow>
                (case custom_losses self of
                   None \<Rightarrow> Inl (AttributeError ''custom_losses'')
                 | Some l \<Rightarrow> Inr (self, Some evaluation_metrics)))
      | _ \<Rightarrow> Inr (self, None))"

text \<open>
  The calls the test loop makes on a runner, in order, stopping at the first exception.
\<close>

datatype test_event = TestStep test_output | TestEpochEnd

fun run_test :: "runner \<Rightarrow> test_event list \<Rightarrow> error + runner" where
  "run_test self [] = Inr self"
| "run_test self (TestStep out # es) = rbind (test_step self out) (\<lambda>self'. run_test self' es)"
| "run_test self (TestEpochEnd # es) =
     rbind (on_test_epoch_end self) (\<lambda>(self', logged). run_test self' es)"

fun steps_of :: "test_event list \<Rightarrow> test_output list" where
  "steps_of [] = []"
| "steps_of (TestStep out # es) = out # steps_of es"
| "steps_of (TestEpochEnd # es) = steps_of es"

text \<open>
  The accumulators after the test outputs \<open>outs\<close>, as the claim describes them: absent
  before the first test step, afterwards five lists with one entry per step.
\<close>

definition accumulated :: "test_output list \<Rightarrow> runner" where
  "accumulated outs =
     (if outs = [] then new_runner
      else \<lparr> predictions_tomorrow = Some (map predicted_price_tomorrow outs),
             true_prices_tomorrow = Some (map true_price_tomorrow outs),
             true_prices_today = Some (map true_price_today outs),
             confidences = Some (map confidence_score outs),
             custom_losses = Some (map custom_loss outs) \<rparr>)"

text \<open>Two test outputs: a long day with a gain and a short day with a loss.\<close>

definition example_outputs :: "test_output list" where
  "example_outputs =
     [\<lparr> predicted_price_tomorrow = 110, true_price_tomorrow = 105, true_price_today = 100,
        confidence_score = 1 / 2, custom_loss = 25 \<rparr>,
      \<lparr> predicted_price_tomorrow = 90, true_price_tomorrow = 105, true_price_today = 100,
        confidence_score = 1 / 4, custom_loss = 1125 \<rparr>]"

section \<open>Properties\<close>

lemma rbind_Inl [simp]: "rbind (Inl e) f = Inl e"
  by (simp add: rbind_def)

lemma rbind_Inr [simp]: "rbind (Inr v) f = f v"
  by (simp add: rbind_def)

subsection \<open>The trading-strategy evaluation\<close>

lemma strategy_day_ok:
  assumes "i < length P" "i < length T" "i < length D" "D ! i \<noteq> 0"
  shows "strategy_day P T D i st =
           Inr \<lparr> daily_returns = daily_returns st @ [spec_profit (P ! i) (T ! i) (D ! i) / D ! i],
                  cumulative = cumulative st * (1 + spec_profit (P ! i) (T ! i) (D ! i) / D ! i),
                  total = total st + spec_profit (P ! i) (T ! i) (D ! i),
                  losses = losses st
                    + (if spec_profit (P ! i) (T ! i) (D ! i) / D ! i < 0 then 1 else 0) \<rparr>"
  using assms by (simp add: strategy_day_def item_def spec_profit_def Let_def)

lemma strategy_loop_ok:
  assumes "\<forall>i \<in> set is. i < length P \<and> i < length T \<and> i < length D \<and> D ! i \<noteq> 0"
  shows "strategy_loop P T D is st =
           Inr \<lparr> daily_returns =
                    daily_returns st @ map (\<lambda>i. spec_profit (P ! i) (T ! i) (D ! i) / D ! i) is,
                  cumulative =
                    cumulative st
                      * prod_list (map (\<lambda>i. 1 + spec_profit (P ! i) (T ! i) (D ! i) / D ! i) is),
                  total = total st + sum_list (map (\<lambda>i. spec_profit (P ! i) (T ! i) (D ! i)) is),
                  losses =
                    losses st
                      + length (filter (\<lambda>i. spec_profit (P ! i) (T ! i) (D ! i) / D ! i < 0) is) \<rparr>"
  using assms
proof (induction "is" arbitrary: st)
  case Nil
  show ?case by simp
next
  case (Cons i "is")
  have day: "i < length P" "i < length T" "i < length D" "D ! i \<noteq> 0"
    using Cons.prems by simp_all
  have rest: "\<forall>j \<in> set is. j < length P \<and> j < length T \<and> j < length D \<and> D ! j \<noteq> 0"
    using Cons.prems by simp
  show ?case
    by (simp add: strategy_day_ok [OF day] Cons.IH [OF rest] mult.assoc add.assoc)
qed

text \<open>
  Claim C1. For equal-length, non-empty sequences of predicted tomorrow-prices, true
  tomorrow-prices and true today-prices, every today-price nonzero,
  \<open>evaluate_trading_strategy\<close> returns: the mean of the daily returns; the product of
  \<open>1 + daily_return\<close> over all days, minus one; the number of days with a negative daily
  return; and the sum of the daily profits, where the profit of a day is
  \<open>tomorrow - today\<close> for a prediction above today's price, \<open>today - tomorrow\<close> for one below
  it and \<open>0\<close> for one equal to it, and the daily return is the profit divided by today's
  price.
\<close>

theorem evaluate_trading_strategy_metrics:
  assumes "length T = length P" and "length D = length P" and "P \<noteq> []"
    and "\<forall>i < length P. D ! i \<noteq> 0"
  shows "evaluate_trading_strategy P T D =
           Inr \<lparr> average_daily_return =
                    Some (sum_list (spec_returns P T D) / real (length P)),
                  cumulative_return = prod_list (map (\<lambda>r. 1 + r) (spec_returns P T D)) - 1,
                  loss_days = length (filter (\<lambda>r. r < 0) (spec_returns P T D)),
                  total_profits = sum_list (spec_profits P T D) \<rparr>"
proof -
  have idx: "\<forall>i \<in> set [0 ..< length P]. i < length P \<and> i < length T \<and> i < length D \<and> D ! i \<noteq> 0"
    using assms by simp
  have nonempty: "[0 ..< length P] \<noteq> []"
    using assms(3) by simp
  show ?thesis
    unfolding evaluate_trading_strategy_def strategy_loop_ok [OF idx]
    using nonempty
    by (simp add: np_mean_def spec_returns_def spec_profits_def filter_map comp_def
        del: upt_eq_Nil_conv)
qed

theorem evaluate_trading_strategy_metrics_witness:
  "evaluate_trading_strategy [110, 90] [105, 105] [100, 100] =
     Inr \<lparr> average_daily_return = Some 0,
            cumulative_return = - (1 / 400),
            loss_days = 1,
            total_profits = 0 \<rparr>
   \<and> sum_list (spec_returns [110, 90] [105, 105] [100, 100]) = 0
   \<and> - (1 / 400) \<noteq> sum_list (spec_returns [110, 90] [105, 105] [100, 100])"
proof -
  have len: "length [105, 105 :: real] = length [110, 90 :: real]"
    "length [100, 100 :: real] = length [110, 90 :: real]" "[110, 90 :: real] \<noteq> []"
    by simp_all
  have nz: "\<forall>i < length [110, 90 :: real]. [100, 100 :: real] ! i \<noteq> 0"
    by (simp add: less_Suc_eq)
  have up: "[0 ..< 2] = [0, Suc 0]"
    by (simp add: upt_rec)
  have rets: "spec_returns [110, 90] [105, 105] [100, 100] = [1 / 20, - (1 / 20)]"
    by (simp add: spec_returns_def spec_profit_def up)
  have profs: "spec_profits [110, 90] [105, 105] [100, 100] = [5, - 5]"
    by (simp add: spec_profits_def spec_profit_def up)
  show ?thesis
    using evaluate_trading_strategy_metrics [OF len nz]
    by (simp add: rets profs)
qed

subsection \<open>Configuration fusion and the training function\<close>

lemma train_func_ok:
  assumes c1: "conf1 = (case hyper_conf of None \<Rightarrow> conf0 | Some h \<Rightarrow> conf0 ++ h)"
    and "conf1 ''seed'' = Some seed"
    and "conf1 ''save_root'' = Some (PStr sroot)"
    and "conf1 ''model_name'' = Some model_name"
    and "conf1 ''dataset_name'' = Some dataset_name"
  shows "train_func cal_conf_hash fmt hyper_conf conf0 =
           Inr \<lparr> hash_input = conf1,
                  seeded = seed,
                  run_logger =
                    (if (case conf1 ''use_wandb'' of None \<Rightarrow> False | Some w \<Rightarrow> py_truthy w)
                     then WandbLogger
                            (os_path_join sroot [fmt model_name @ ''_'' @ fmt dataset_name])
                            (cal_conf_hash conf1 10) (''seed_'' @ fmt seed)
                     else CSVLogger
                            (os_path_join sroot [fmt model_name @ ''_'' @ fmt dataset_name])
                            (cal_conf_hash conf1 10) (''seed_'' @ fmt seed)),
                  final_conf =
                    conf1(''conf_hash'' \<mapsto> PStr (cal_conf_hash conf1 10),
                          ''exp_dir'' \<mapsto>
                            PStr (os_path_join
                                    (os_path_join sroot [fmt model_name @ ''_'' @ fmt dataset_name])
                                    [cal_conf_hash conf1 10, ''seed_'' @ fmt seed])) \<rparr>"
  using assms(2-5)
  unfolding train_func_def c1 [symmetric] Let_def
  by (simp add: getitem_def as_path_def)

text \<open>
  Claim C2. For every task record \<open>T\<close>, dataset record \<open>D\<close> and experiment record \<open>E\<close>, the
  configuration that \<open>load_config\<close> returns maps each key \<open>k\<close> to \<open>E[k]\<close> when \<open>E\<close> has \<open>k\<close>,
  else to \<open>D[k]\<close> when \<open>D\<close> has \<open>k\<close>, else to \<open>T[k]\<close>; and \<open>train_func\<close> applies its override
  record on top of that configuration, the override winning at every key: this is the
  configuration it hashes, and the configuration it goes on with differs from it only
  at the two keys \<open>conf_hash\<close> and \<open>exp_dir\<close> that \<open>train_func\<close> itself attaches. The
  hypotheses say that \<open>D\<close> is the dataset record \<open>E\<close> names and that the overridden
  configuration holds the four keys lines 71 to 77 read.
\<close>

theorem config_fusion_priority:
  assumes "exp_conf ''dataset_name'' = Some n"
    and "data_conf_module (fmt n @ ''_conf'') = Some data_conf"
    and "fused = (\<lambda>k. case exp_conf k of Some v \<Rightarrow> Some v
                       | None \<Rightarrow> (case data_conf k of Some v \<Rightarrow> Some v | None \<Rightarrow> task_conf k))"
    and "overridden = (\<lambda>k. case hyper k of Some v \<Rightarrow> Some v | None \<Rightarrow> fused k)"
    and "overridden ''seed'' = Some seed"
    and "overridden ''save_root'' = Some (PStr sroot)"
    and "overridden ''model_name'' = Some model_name"
    and "overridden ''dataset_name'' = Some dataset_name"
  shows "load_config task_conf data_conf_module fmt exp_conf = Inr fused
       \<and> (\<exists>r. train_func cal_conf_hash fmt (Some hyper) fused = Inr r
              \<and> hash_input r = overridden
              \<and> (\<forall>k. k \<noteq> ''conf_hash'' \<longrightarrow> k \<noteq> ''exp_dir'' \<longrightarrow> final_conf r k = overridden k))"
proof -
  have fused_add: "fused = (task_conf ++ data_conf) ++ exp_conf"
    unfolding assms(3) by (rule ext) (simp add: map_add_def split: option.splits)
  have load: "load_config task_conf data_conf_module fmt exp_conf = Inr fused"
    using assms(1,2) by (simp add: load_config_def getitem_def fused_add)
  have over_add: "overridden = (case Some hyper of None \<Rightarrow> fused | Some h \<Rightarrow> fused ++ h)"
    unfolding assms(4) by (rule ext) (simp add: map_add_def split: option.splits)
  note run = train_func_ok [OF over_add assms(5-8), of cal_conf_hash fmt]
  show ?thesis
    using load by (simp add: run)
qed

theorem config_fusion_priority_witness:
  "map_sum id (\<lambda>c. [c ''optimizer'', c ''lr'', c ''hist_len'', c ''seed''])
     (load_config example_task_conf example_datasets plain_format example_exp_conf)
     = Inr [Some (PStr ''Adam''), Some (PFloat (1 / 200)), Some (PInt 60), None]
   \<and> map_sum id (\<lambda>r. [hash_input r ''optimizer'', hash_input r ''lr'', hash_input r ''hist_len'',
                        hash_input r ''seed'', final_conf r ''hist_len''])
       (rbind (load_config example_task_conf example_datasets plain_format example_exp_conf)
          (train_func example_hash plain_format (Some example_training_conf)))
     = Inr [Some (PStr ''Adam''), Some (PFloat (1 / 200)), Some (PInt 48), Some (PInt 1),
            Some (PInt 48)]"
proof -
  have a1: "example_exp_conf ''dataset_name'' = Some (PStr ''AAPL'')"
    by (simp add: example_exp_conf_def)
  have a2: "example_datasets (plain_format (PStr ''AAPL'') @ ''_conf'') = Some example_data_conf"
    by (simp add: example_datasets_def plain_format_def)
  define fused where "fused = (\<lambda>k. case example_exp_conf k of Some v \<Rightarrow> Some v
       | None \<Rightarrow> (case example_data_conf k of Some v \<Rightarrow> Some v | None \<Rightarrow> example_task_conf k))"
  define overridden where
    "overridden = (\<lambda>k. case example_training_conf k of Some v \<Rightarrow> Some v | None \<Rightarrow> fused k)"
  have o: "overridden ''seed'' = Some (PInt 1)" "overridden ''save_root'' = Some (PStr ''save'')"
    "overridden ''model_name'' = Some (PStr ''DenseRMoK'')"
    "overridden ''dataset_name'' = Some (PStr ''AAPL'')"
    by (simp_all add: overridden_def fused_def example_training_conf_def example_exp_conf_def)
  have v: "fused ''optimizer'' = Some (PStr ''Adam'')" "fused ''lr'' = Some (PFloat (1 / 200))"
    "fused ''hist_len'' = Some (PInt 60)" "fused ''seed'' = None"
    "overridden ''optimizer'' = Some (PStr ''Adam'')" "overridden ''lr'' = Some (PFloat (1 / 200))"
    "overridden ''hist_len'' = Some (PInt 48)"
    by (simp_all add: overridden_def fused_def example_training_conf_def example_exp_conf_def
        example_data_conf_def example_task_conf_def)
  from config_fusion_priority [where exp_conf = example_exp_conf and n = "PStr ''AAPL''"
      and data_conf_module = example_datasets and fmt = plain_format
      and data_conf = example_data_conf and task_conf = example_task_conf
      and hyper = example_training_conf and fused = fused and overridden = overridden
      and cal_conf_hash = example_hash, OF a1 a2 fused_def overridden_def o]
  obtain r where
    l: "load_config example_task_conf example_datasets plain_format example_exp_conf = Inr fused"
    and t: "train_func example_hash plain_format (Some example_training_conf) fused = Inr r"
    and h: "hash_input r = overridden"
    and f: "\<forall>k. k \<noteq> ''conf_hash'' \<longrightarrow> k \<noteq> ''exp_dir'' \<longrightarrow> final_conf r k = overridden k"
    by blast
  have f': "final_conf r ''hist_len'' = overridden ''hist_len''"
    using f by simp
  show ?thesis
    by (simp add: l t h f' v o)
qed

text \<open>
  Claim C9, as amended. In \<open>train_func\<close> the hash is computed from the configuration after
  the override record has been applied and before \<open>train_func\<close> attaches \<open>exp_dir\<close>: the hash
  input is exactly the overridden configuration. It therefore holds the key \<open>exp_dir\<close>
  only when the base configuration or the override record already holds it; the
  \<open>exp_dir\<close> value derived in the call is never part of that call's hash input.
\<close>

theorem conf_hash_before_exp_dir:
  assumes "conf1 = (case hyper_conf of None \<Rightarrow> conf0 | Some h \<Rightarrow> conf0 ++ h)"
    and "conf1 ''seed'' = Some seed"
    and "conf1 ''save_root'' = Some (PStr sroot)"
    and "conf1 ''model_name'' = Some model_name"
    and "conf1 ''dataset_name'' = Some dataset_name"
  shows "\<exists>r. train_func cal_conf_hash fmt hyper_conf conf0 = Inr r
            \<and> hash_input r = conf1
            \<and> final_conf r ''conf_hash'' = Some (PStr (cal_conf_hash conf1 10))
            \<and> final_conf r ''exp_dir'' =
                 Some (PStr (os_path_join
                               (os_path_join sroot [fmt model_name @ ''_'' @ fmt dataset_name])
                               [cal_conf_hash conf1 10, ''seed_'' @ fmt seed]))
            \<and> (hash_input r ''exp_dir'' = None
                 \<longleftrightarrow> conf0 ''exp_dir'' = None
                     \<and> (\<forall>h. hyper_conf = Some h \<longrightarrow> h ''exp_dir'' = None))"
proof -
  have absent: "conf1 ''exp_dir'' = None
      \<longleftrightarrow> conf0 ''exp_dir'' = None \<and> (\<forall>h. hyper_conf = Some h \<longrightarrow> h ''exp_dir'' = None)"
    unfolding assms(1) by (cases hyper_conf) (auto simp: map_add_def split: option.splits)
  show ?thesis
    unfolding train_func_ok [OF assms, of cal_conf_hash fmt]
    using absent by simp
qed

theorem conf_hash_before_exp_dir_witness:
  "map_sum id (\<lambda>r. [hash_input r ''exp_dir'', final_conf r ''conf_hash'', final_conf r ''exp_dir''])
     (train_func example_hash plain_format (Some example_training_conf) example_fused_conf)
   = Inr [None, Some (PStr ''0000000000''),
          Some (PStr ''save/DenseRMoK_AAPL/0000000000/seed_1'')]"
proof -
  define conf1 where "conf1 = (case Some example_training_conf of None \<Rightarrow> example_fused_conf
                                | Some h \<Rightarrow> example_fused_conf ++ h)"
  have k: "conf1 ''seed'' = Some (PInt 1)" "conf1 ''save_root'' = Some (PStr ''save'')"
    "conf1 ''model_name'' = Some (PStr ''DenseRMoK'')"
    "conf1 ''dataset_name'' = Some (PStr ''AAPL'')"
    by (simp_all add: conf1_def example_fused_conf_def example_training_conf_def
        example_exp_conf_def map_add_def)
  have none: "example_fused_conf ''exp_dir'' = None" "example_training_conf ''exp_dir'' = None"
    "conf1 ''exp_dir'' = None"
    by (simp_all add: conf1_def example_fused_conf_def example_training_conf_def
        example_exp_conf_def example_data_conf_def example_task_conf_def map_add_def)
  from conf_hash_before_exp_dir [where cal_conf_hash = example_hash and fmt = plain_format,
      OF conf1_def k]
  obtain r where
    t: "train_func example_hash plain_format (Some example_training_conf) example_fused_conf = Inr r"
    and h: "hash_input r = conf1"
    and c: "final_conf r ''conf_hash'' = Some (PStr (example_hash conf1 10))"
    and e: "final_conf r ''exp_dir'' =
              Some (PStr (os_path_join
                 (os_path_join ''save''
                    [plain_format (PStr ''DenseRMoK'') @ ''_'' @ plain_format (PStr ''AAPL'')])
                 [example_hash conf1 10, ''seed_'' @ plain_format (PInt 1)]))"
    by blast
  have hash: "example_hash conf1 10 = ''0000000000''"
    by (simp add: example_hash_def none)
  show ?thesis
    by (simp add: t h c e hash none os_path_join_def join_step_def plain_format_def)
qed

text \<open>
  The claim as written (for every input configuration the hash input never contains
  \<open>exp_dir\<close>) fails when the configuration already holds the key: \<open>train_func\<close> updates
  its dictionary in place, so a second call on the same dictionary hashes the
  \<open>exp_dir\<close> the first call attached.
\<close>

theorem hash_input_contains_exp_dir_counterexample:
  "map_sum id (\<lambda>r. [hash_input r ''exp_dir'', final_conf r ''conf_hash''])
     (rbind (train_func example_hash plain_format (Some example_training_conf) example_fused_conf)
        (\<lambda>first. train_func example_hash plain_format (Some example_training_conf)
                   (final_conf first)))
   = Inr [Some (PStr ''save/DenseRMoK_AAPL/0000000000/seed_1''), Some (PStr ''1111111111'')]"
proof -
  define conf1 where "conf1 = (case Some example_training_conf of None \<Rightarrow> example_fused_conf
                                | Some h \<Rightarrow> example_fused_conf ++ h)"
  have k: "conf1 ''seed'' = Some (PInt 1)" "conf1 ''save_root'' = Some (PStr ''save'')"
    "conf1 ''model_name'' = Some (PStr ''DenseRMoK'')"
    "conf1 ''dataset_name'' = Some (PStr ''AAPL'')"
    by (simp_all add: conf1_def example_fused_conf_def example_training_conf_def
        example_exp_conf_def map_add_def)
  have none: "conf1 ''exp_dir'' = None"
    by (simp add: conf1_def example_fused_conf_def example_training_conf_def
        example_exp_conf_def example_data_conf_def example_task_conf_def map_add_def)
  define conf_a where "conf_a = conf1(''conf_hash'' \<mapsto> PStr ''0000000000'',
      ''exp_dir'' \<mapsto> PStr ''save/DenseRMoK_AAPL/0000000000/seed_1'')"
  have hash1: "example_hash conf1 10 = ''0000000000''"
    by (simp add: example_hash_def none)
  have "\<exists>r. train_func example_hash plain_format (Some example_training_conf)
               example_fused_conf = Inr r \<and> final_conf r = conf_a"
    unfolding train_func_ok [where cal_conf_hash = example_hash and fmt = plain_format,
        OF conf1_def k]
    by (simp add: hash1 conf_a_def os_path_join_def join_step_def plain_format_def)
  then obtain first where
    r1: "train_func example_hash plain_format (Some example_training_conf)
           example_fused_conf = Inr first"
    and f1: "final_conf first = conf_a"
    by blast
  define conf2 where "conf2 = (case Some example_training_conf of None \<Rightarrow> conf_a
                                | Some h \<Rightarrow> conf_a ++ h)"
  have k2: "conf2 ''seed'' = Some (PInt 1)" "conf2 ''save_root'' = Some (PStr ''save'')"
    "conf2 ''model_name'' = Some (PStr ''DenseRMoK'')"
    "conf2 ''dataset_name'' = Some (PStr ''AAPL'')"
    by (simp_all add: conf2_def conf_a_def conf1_def example_fused_conf_def
        example_training_conf_def example_exp_conf_def map_add_def)
  have some: "conf2 ''exp_dir'' = Some (PStr ''save/DenseRMoK_AAPL/0000000000/seed_1'')"
    by (simp add: conf2_def conf_a_def example_training_conf_def map_add_def)
  have hash2: "example_hash conf2 10 = ''1111111111''"
    by (simp add: example_hash_def some)
  show ?thesis
    unfolding r1 rbind_Inr f1
      train_func_ok [where cal_conf_hash = example_hash and fmt = plain_format, OF conf2_def k2]
    by (simp add: hash2 some)
qed

subsection \<open>Optimizer and scheduler construction\<close>

lemma hp_Some: "hparams k = Some v \<Longrightarrow> hp hparams k = Inr v"
  by (simp add: hp_def)

lemma hp_upd_other: "k \<noteq> k' \<Longrightarrow> hp (hparams(k' := w)) k = hp hparams k"
  by (simp add: hp_def)

lemma py_eq_PStr: "py_eq v (PStr s) = (v = PStr s)"
  by (cases v) auto

lemma py_lt_int: "py_lt (PInt a) (PInt b) = Inr (a < b)"
  by simp

lemma py_le_int: "py_le (PInt a) (PInt b) = Inr (a \<le> b)"
  by (auto simp: py_le_def)

lemma py_sub_int: "py_sub (PInt a) (PInt b) = Inr (PInt (a - b))"
  by (simp add: py_sub_def)

lemma py_truediv_int:
  "py_truediv (PInt a) (PInt b) =
     (if b = 0 then Inl ZeroDivisionError else Inr (PFloat (real_of_int a / real_of_int b)))"
  by (simp add: py_truediv_def)

lemma wsd_invariant_int:
  assumes "hparams ''lr_warmup_end_epochs'' = Some (PInt a)"
    and "hparams ''lr_stable_end_epochs'' = Some (PInt b)"
    and "hparams ''max_epochs'' = Some (PInt c)"
  shows "wsd_invariant hparams = Inr (a < b \<and> b < c)"
  using assms by (simp add: wsd_invariant_def hp_def)

lemma wsd_lr_lambda_int:
  assumes "hparams ''lr_warmup_end_epochs'' = Some (PInt a)"
    and "hparams ''lr_stable_end_epochs'' = Some (PInt b)"
    and "hparams ''max_epochs'' = Some (PInt c)"
  shows "wsd_lr_lambda hparams e =
           (if e < a
            then (if a = 0 then Inl ZeroDivisionError
                  else Inr (PFloat (real_of_int (e + 1) / real_of_int a)))
            else if e < b then Inr (PFloat 1)
            else if e \<le> c
            then (if c - b = 0 then Inl ZeroDivisionError
                  else Inr (PFloat (real_of_int (e + 1 - b) / real_of_int (c - b))))
            else Inr PNone)"
  using assms
  by (simp add: wsd_lr_lambda_def hp_def py_le_int py_sub_int py_truediv_int)


lemma wsd_lr_lambda_upd:
  "wsd_lr_lambda (hparams(''optimizer_weight_decay'' := w)) = wsd_lr_lambda hparams"
  by (rule ext) (simp add: wsd_lr_lambda_def hp_upd_other cong del: if_weak_cong)

lemma scheduler_branch_upd:
  "scheduler_branch (hparams(''optimizer_weight_decay'' := w)) opt = scheduler_branch hparams opt"
  by (simp add: scheduler_branch_def wsd_invariant_def hp_upd_other wsd_lr_lambda_upd
      cong del: if_weak_cong)

lemma wsd_lr_lambda_upd_optimizer:
  "wsd_lr_lambda (hparams(''optimizer'' := x)) = wsd_lr_lambda hparams"
  by (rule ext) (simp add: wsd_lr_lambda_def hp_upd_other cong del: if_weak_cong)

lemma scheduler_branch_upd_optimizer:
  "scheduler_branch (hparams(''optimizer'' := x)) opt = scheduler_branch hparams opt"
  by (simp add: scheduler_branch_def wsd_invariant_def hp_upd_other wsd_lr_lambda_upd_optimizer
      cong del: if_weak_cong)

text \<open>
  Claim C3. With \<open>optimizer = "AdamW"\<close>, \<open>configure_optimizers\<close> builds the optimizer with the
  learning rate \<open>lr\<close>, the momentum coefficients \<open>(0.9, 0.95)\<close> and the weight decay \<open>1e-5\<close>,
  whatever the key \<open>optimizer_weight_decay\<close> holds, also when it is absent (\<open>w\<close> ranges over
  both): the branch does not read the key, and the whole result of \<open>configure_optimizers\<close>
  is the same for every \<open>w\<close>. The \<open>"Adam"\<close> branch passes the configured
  \<open>optimizer_weight_decay\<close> on, and fails when the key is absent: with \<open>optimizer = "Adam"\<close>
  in the same configuration, the optimizer that \<open>configure_optimizers\<close> returns and hands to
  the scheduler is \<open>Adam\<close> with the learning rate \<open>lr\<close> and the configured weight decay \<open>d\<close>,
  and without the key the call raises \<open>AttributeError\<close>.
\<close>

theorem adamw_ignores_weight_decay:
  assumes "hparams ''optimizer'' = Some (PStr ''AdamW'')" and "hparams ''lr'' = Some lr"
  shows "optimizer_branch (hparams(''optimizer_weight_decay'' := w)) =
           Inr (AdamW lr (PFloat (9 / 10), PFloat (95 / 100)) (PFloat (1 / 100000)))
       \<and> configure_optimizers (hparams(''optimizer_weight_decay'' := w)) =
           rbind (scheduler_branch hparams
                    (AdamW lr (PFloat (9 / 10), PFloat (95 / 100)) (PFloat (1 / 100000))))
             (\<lambda>sched. Inr \<lparr> optimizer =
                               AdamW lr (PFloat (9 / 10), PFloat (95 / 100)) (PFloat (1 / 100000)),
                             lr_scheduler = sched \<rparr>)
       \<and> optimizer_branch (hparams(''optimizer'' \<mapsto> PStr ''Adam'',
                                    ''optimizer_weight_decay'' \<mapsto> d)) = Inr (Adam lr d)
       \<and> optimizer_branch (hparams(''optimizer'' \<mapsto> PStr ''Adam'',
                                    ''optimizer_weight_decay'' := None)) =
           Inl (AttributeError ''optimizer_weight_decay'')
       \<and> configure_optimizers (hparams(''optimizer'' \<mapsto> PStr ''Adam'',
                                        ''optimizer_weight_decay'' \<mapsto> d)) =
           rbind (scheduler_branch hparams (Adam lr d))
             (\<lambda>sched. Inr \<lparr> optimizer = Adam lr d, lr_scheduler = sched \<rparr>)
       \<and> configure_optimizers (hparams(''optimizer'' \<mapsto> PStr ''Adam'',
                                        ''optimizer_weight_decay'' := None)) =
           Inl (AttributeError ''optimizer_weight_decay'')"
proof -
  have b: "optimizer_branch (hparams(''optimizer_weight_decay'' := w)) =
           Inr (AdamW lr (PFloat (9 / 10), PFloat (95 / 100)) (PFloat (1 / 100000)))"
    using assms by (simp add: optimizer_branch_def hp_def)
  have c: "configure_optimizers (hparams(''optimizer_weight_decay'' := w)) =
           rbind (scheduler_branch hparams
                    (AdamW lr (PFloat (9 / 10), PFloat (95 / 100)) (PFloat (1 / 100000))))
             (\<lambda>sched. Inr \<lparr> optimizer =
                               AdamW lr (PFloat (9 / 10), PFloat (95 / 100)) (PFloat (1 / 100000)),
                             lr_scheduler = sched \<rparr>)"
    unfolding configure_optimizers_def b scheduler_branch_upd by simp
  have d: "optimizer_branch (hparams(''optimizer'' \<mapsto> PStr ''Adam'',
                                    ''optimizer_weight_decay'' \<mapsto> d)) = Inr (Adam lr d)"
    using assms by (simp add: optimizer_branch_def hp_def)
  have e: "optimizer_branch (hparams(''optimizer'' \<mapsto> PStr ''Adam'',
                                    ''optimizer_weight_decay'' := None)) =
           Inl (AttributeError ''optimizer_weight_decay'')"
    using assms by (simp add: optimizer_branch_def hp_def)
  have f: "configure_optimizers (hparams(''optimizer'' \<mapsto> PStr ''Adam'',
                                        ''optimizer_weight_decay'' \<mapsto> d)) =
           rbind (scheduler_branch hparams (Adam lr d))
             (\<lambda>sched. Inr \<lparr> optimizer = Adam lr d, lr_scheduler = sched \<rparr>)"
    unfolding configure_optimizers_def d scheduler_branch_upd scheduler_branch_upd_optimizer
    by simp
  have g: "configure_optimizers (hparams(''optimizer'' \<mapsto> PStr ''Adam'',
                                        ''optimizer_weight_decay'' := None)) =
           Inl (AttributeError ''optimizer_weight_decay'')"
    unfolding configure_optimizers_def e by simp
  show ?thesis
    using b c d e f g by (intro conjI)
qed

theorem adamw_ignores_weight_decay_witness:
  "map_sum id optimizer (configure_optimizers (wsd_conf 2 5 10)) =
     Inr (AdamW (PFloat (1 / 1000)) (PFloat (9 / 10), PFloat (95 / 100)) (PFloat (1 / 100000)))
   \<and> map_sum id optimizer
       (configure_optimizers ((wsd_conf 2 5 10)(''optimizer_weight_decay'' \<mapsto> PFloat (1 / 2)))) =
     Inr (AdamW (PFloat (1 / 1000)) (PFloat (9 / 10), PFloat (95 / 100)) (PFloat (1 / 100000)))
   \<and> optimizer_branch ((wsd_conf 2 5 10)(''optimizer'' \<mapsto> PStr ''Adam'',
                          ''optimizer_weight_decay'' \<mapsto> PFloat (1 / 2))) =
     Inr (Adam (PFloat (1 / 1000)) (PFloat (1 / 2)))
   \<and> map_sum id optimizer
       (configure_optimizers ((wsd_conf 2 5 10)(''optimizer'' \<mapsto> PStr ''Adam'',
          ''optimizer_weight_decay'' \<mapsto> PFloat (1 / 2)))) =
     Inr (Adam (PFloat (1 / 1000)) (PFloat (1 / 2)))
   \<and> map_sum id optimizer
       (configure_optimizers ((wsd_conf 2 5 10)(''optimizer'' \<mapsto> PStr ''Adam'',
          ''optimizer_weight_decay'' \<mapsto> PFloat (1 / 4)))) =
     Inr (Adam (PFloat (1 / 1000)) (PFloat (1 / 4)))
   \<and> configure_optimizers ((wsd_conf 2 5 10)(''optimizer'' \<mapsto> PStr ''Adam'',
          ''optimizer_weight_decay'' := None)) =
     Inl (AttributeError ''optimizer_weight_decay'')"
proof -
  have a: "wsd_conf 2 5 10 ''optimizer'' = Some (PStr ''AdamW'')"
    "wsd_conf 2 5 10 ''lr'' = Some (PFloat (1 / 1000))"
    by (simp_all add: wsd_conf_def)
  have same: "(wsd_conf 2 5 10)(''optimizer_weight_decay'' := Some (PFloat (1 / 10))) = wsd_conf 2 5 10"
    by (rule ext) (simp add: wsd_conf_def)
  have inv: "wsd_invariant (wsd_conf 2 5 10) = Inr True"
    by (simp add: wsd_invariant_def hp_def wsd_conf_def)
  have sch: "scheduler_branch (wsd_conf 2 5 10) opt =
      Inr \<lparr> scheduler = LambdaLR opt (wsd_lr_lambda (wsd_conf 2 5 10)), monitor = None \<rparr>" for opt
    unfolding scheduler_branch_def inv by (simp add: hp_def wsd_conf_def)
  note t1 = adamw_ignores_weight_decay [OF a, of "Some (PFloat (1 / 10))" "PFloat (1 / 2)"]
  note t2 = adamw_ignores_weight_decay [OF a, of "Some (PFloat (1 / 2))" "PFloat (1 / 2)"]
  note t3 = adamw_ignores_weight_decay [OF a, of "Some (PFloat (1 / 2))" "PFloat (1 / 4)"]
  show ?thesis
    using t1 t2 t3 by (simp add: same sch)
qed


text \<open>
  Claim C4. \<open>configure_optimizers\<close> raises for every optimizer name other than \<open>Adam\<close>,
  \<open>AdamW\<close> and \<open>LBFGS\<close> (\<open>ValueError\<close>, "Invalid optimizer type!"), for every scheduler name
  other than \<open>StepLR\<close>, \<open>MultiStepLR\<close>, \<open>ReduceLROnPlateau\<close> and \<open>WSD\<close> (\<open>ValueError\<close>,
  "Invalid lr_scheduler type!", once the optimizer has been built), and for the scheduler
  \<open>WSD\<close> whenever \<open>lr_warmup_end_epochs < lr_stable_end_epochs < max_epochs\<close> does not hold
  (\<open>AssertionError\<close>). In each case the call returns no optimizer and no scheduler, so
  nothing is handed to the training loop.
\<close>

theorem configure_optimizers_rejects:
  shows "(hparams ''optimizer'' = Some v \<and> v \<noteq> PStr ''Adam'' \<and> v \<noteq> PStr ''AdamW''
            \<and> v \<noteq> PStr ''LBFGS''
          \<longrightarrow> configure_optimizers hparams = Inl (ValueError ''Invalid optimizer type!''))
       \<and> (hparams ''lr_scheduler'' = Some s \<and> s \<noteq> PStr ''StepLR'' \<and> s \<noteq> PStr ''MultiStepLR''
            \<and> s \<noteq> PStr ''ReduceLROnPlateau'' \<and> s \<noteq> PStr ''WSD''
          \<longrightarrow> isl (configure_optimizers hparams)
              \<and> (\<forall>opt. optimizer_branch hparams = Inr opt
                    \<longrightarrow> configure_optimizers hparams =
                          Inl (ValueError ''Invalid lr_scheduler type!'')))
       \<and> (hparams ''lr_scheduler'' = Some (PStr ''WSD'')
            \<and> hparams ''lr_warmup_end_epochs'' = Some (PInt a)
            \<and> hparams ''lr_stable_end_epochs'' = Some (PInt b)
            \<and> hparams ''max_epochs'' = Some (PInt c)
            \<and> \<not> (a < b \<and> b < c)
          \<longrightarrow> isl (configure_optimizers hparams)
              \<and> (\<forall>opt. optimizer_branch hparams = Inr opt
                    \<longrightarrow> configure_optimizers hparams = Inl AssertionError))"
proof (intro conjI impI)
  assume "hparams ''optimizer'' = Some v \<and> v \<noteq> PStr ''Adam'' \<and> v \<noteq> PStr ''AdamW''
            \<and> v \<noteq> PStr ''LBFGS''"
  then have "optimizer_branch hparams = Inl (ValueError ''Invalid optimizer type!'')"
    by (simp add: optimizer_branch_def hp_def py_eq_PStr)
  then show "configure_optimizers hparams = Inl (ValueError ''Invalid optimizer type!'')"
    by (simp add: configure_optimizers_def)
next
  assume s: "hparams ''lr_scheduler'' = Some s \<and> s \<noteq> PStr ''StepLR'' \<and> s \<noteq> PStr ''MultiStepLR''
            \<and> s \<noteq> PStr ''ReduceLROnPlateau'' \<and> s \<noteq> PStr ''WSD''"
  then have sch: "scheduler_branch hparams opt = Inl (ValueError ''Invalid lr_scheduler type!'')"
    for opt
    by (simp add: scheduler_branch_def hp_def py_eq_PStr)
  show "isl (configure_optimizers hparams)"
    by (cases "optimizer_branch hparams") (simp_all add: configure_optimizers_def sch)
  show "\<forall>opt. optimizer_branch hparams = Inr opt
          \<longrightarrow> configure_optimizers hparams = Inl (ValueError ''Invalid lr_scheduler type!'')"
    by (simp add: configure_optimizers_def sch)
next
  assume w: "hparams ''lr_scheduler'' = Some (PStr ''WSD'')
            \<and> hparams ''lr_warmup_end_epochs'' = Some (PInt a)
            \<and> hparams ''lr_stable_end_epochs'' = Some (PInt b)
            \<and> hparams ''max_epochs'' = Some (PInt c)
            \<and> \<not> (a < b \<and> b < c)"
  then have inv: "wsd_invariant hparams = Inr False"
    using wsd_invariant_int [of hparams a b c] by simp
  have sch: "scheduler_branch hparams opt = Inl AssertionError" for opt
    using w unfolding scheduler_branch_def inv by (simp add: hp_def)
  show "isl (configure_optimizers hparams)"
    by (cases "optimizer_branch hparams") (simp_all add: configure_optimizers_def sch)
  show "\<forall>opt. optimizer_branch hparams = Inr opt
          \<longrightarrow> configure_optimizers hparams = Inl AssertionError"
    by (simp add: configure_optimizers_def sch)
qed

theorem configure_optimizers_rejects_witness:
  "configure_optimizers ((wsd_conf 2 5 10)(''optimizer'' \<mapsto> PStr ''SGD'')) =
     Inl (ValueError ''Invalid optimizer type!'')
   \<and> configure_optimizers ((wsd_conf 2 5 10)(''lr_scheduler'' \<mapsto> PStr ''CosineAnnealingLR'')) =
     Inl (ValueError ''Invalid lr_scheduler type!'')
   \<and> configure_optimizers (wsd_conf 5 5 10) = Inl AssertionError
   \<and> configure_optimizers (wsd_conf 2 10 10) = Inl AssertionError"
proof -
  have opt: "optimizer_branch ((wsd_conf a b c)(''lr_scheduler'' \<mapsto> s)) =
      Inr (AdamW (PFloat (1 / 1000)) (PFloat (9 / 10), PFloat (95 / 100)) (PFloat (1 / 100000)))"
    for a b c s
    by (simp add: optimizer_branch_def hp_def wsd_conf_def)
  have same: "(wsd_conf a b c)(''lr_scheduler'' \<mapsto> PStr ''WSD'') = wsd_conf a b c" for a b c
    by (rule ext) (simp add: wsd_conf_def)
  have opt': "optimizer_branch (wsd_conf a b c) =
      Inr (AdamW (PFloat (1 / 1000)) (PFloat (9 / 10), PFloat (95 / 100)) (PFloat (1 / 100000)))"
    for a b c
    using opt [of a b c "PStr ''WSD''"] by (simp add: same)
  note t1 = configure_optimizers_rejects
      [of "(wsd_conf 2 5 10)(''optimizer'' \<mapsto> PStr ''SGD'')" "PStr ''SGD''"]
  note t2 = configure_optimizers_rejects
      [of "(wsd_conf 2 5 10)(''lr_scheduler'' \<mapsto> PStr ''CosineAnnealingLR'')" _
          "PStr ''CosineAnnealingLR''"]
  note t3 = configure_optimizers_rejects [of "wsd_conf 5 5 10" _ _ 5 5 10]
  note t4 = configure_optimizers_rejects [of "wsd_conf 2 10 10" _ _ 2 10 10]
  have c1: "configure_optimizers ((wsd_conf 2 5 10)(''optimizer'' \<mapsto> PStr ''SGD'')) =
     Inl (ValueError ''Invalid optimizer type!'')"
    using t1 by simp
  have c2: "configure_optimizers ((wsd_conf 2 5 10)(''lr_scheduler'' \<mapsto> PStr ''CosineAnnealingLR'')) =
     Inl (ValueError ''Invalid lr_scheduler type!'')"
    using t2 by (simp add: opt)
  have c3: "configure_optimizers (wsd_conf 5 5 10) = Inl AssertionError"
    using t3 by (simp add: opt') (simp add: wsd_conf_def)
  have c4: "configure_optimizers (wsd_conf 2 10 10) = Inl AssertionError"
    using t4 by (simp add: opt') (simp add: wsd_conf_def)
  show ?thesis
    using c1 c2 c3 c4 by (intro conjI)
qed


text \<open>
  Claim C5, as amended. For integer epochs with
  \<open>lr_warmup_end_epochs < lr_stable_end_epochs < max_epochs\<close>: at epoch \<open>0\<close> the multiplier is
  \<open>1 / lr_warmup_end_epochs\<close> when \<open>lr_warmup_end_epochs\<close> is positive (when it is not, and
  \<open>lr_stable_end_epochs\<close> is positive, epoch \<open>0\<close> is a stable epoch and the multiplier is
  \<open>1.0\<close>); at epoch \<open>lr_warmup_end_epochs\<close> it is \<open>1.0\<close>; at epoch \<open>lr_stable_end_epochs\<close> it is
  \<open>1 / (max_epochs - lr_stable_end_epochs)\<close>.
\<close>

theorem wsd_boundary_values:
  assumes "hparams ''lr_warmup_end_epochs'' = Some (PInt a)"
    and "hparams ''lr_stable_end_epochs'' = Some (PInt b)"
    and "hparams ''max_epochs'' = Some (PInt c)"
    and "a < b" and "b < c"
  shows "wsd_invariant hparams = Inr True
       \<and> (0 < a \<longrightarrow> wsd_lr_lambda hparams 0 = Inr (PFloat (1 / real_of_int a)))
       \<and> (a \<le> 0 \<and> 0 < b \<longrightarrow> wsd_lr_lambda hparams 0 = Inr (PFloat 1))
       \<and> wsd_lr_lambda hparams a = Inr (PFloat 1)
       \<and> wsd_lr_lambda hparams b = Inr (PFloat (1 / (real_of_int c - real_of_int b)))"
proof -
  note lam = wsd_lr_lambda_int [OF assms(1-3)]
  have i: "wsd_invariant hparams = Inr True"
    using assms(4,5) by (simp add: wsd_invariant_int [OF assms(1-3)])
  have z: "0 < a \<longrightarrow> wsd_lr_lambda hparams 0 = Inr (PFloat (1 / real_of_int a))"
    by (simp add: lam)
  have z': "a \<le> 0 \<and> 0 < b \<longrightarrow> wsd_lr_lambda hparams 0 = Inr (PFloat 1)"
    by (simp add: lam)
  have w: "wsd_lr_lambda hparams a = Inr (PFloat 1)"
    using assms(4) by (simp add: lam)
  have s: "wsd_lr_lambda hparams b = Inr (PFloat (1 / (real_of_int c - real_of_int b)))"
    using assms(4,5) by (simp add: lam)
  show ?thesis
    using i z z' w s by (intro conjI)
qed

theorem wsd_boundary_values_witness:
  "wsd_lr_lambda (wsd_conf 2 5 10) 0 = Inr (PFloat (1 / 2))
   \<and> wsd_lr_lambda (wsd_conf 2 5 10) 2 = Inr (PFloat 1)
   \<and> wsd_lr_lambda (wsd_conf 2 5 10) 5 = Inr (PFloat (1 / 5))"
proof -
  have k: "wsd_conf 2 5 10 ''lr_warmup_end_epochs'' = Some (PInt 2)"
    "wsd_conf 2 5 10 ''lr_stable_end_epochs'' = Some (PInt 5)"
    "wsd_conf 2 5 10 ''max_epochs'' = Some (PInt 10)"
    by (simp_all add: wsd_conf_def)
  have o: "(2 :: int) < 5" "(5 :: int) < 10"
    by simp_all
  show ?thesis
    using wsd_boundary_values [OF k o] by simp
qed

text \<open>
  The claim as written fails at epoch \<open>0\<close> for a configuration without warm-up: with
  \<open>lr_warmup_end_epochs = 0\<close> the invariant holds, epoch \<open>0\<close> is not below the warm-up end and
  the multiplier is \<open>1.0\<close>, while \<open>1 / lr_warmup_end_epochs\<close> has no value (in HOL, \<open>1 / 0 = 0\<close>).
  A negative \<open>lr_warmup_end_epochs\<close> passes the invariant as well and gives \<open>1.0\<close>, not the
  negative quotient.
\<close>

theorem wsd_epoch_zero_counterexample:
  "wsd_invariant (wsd_conf 0 1 2) = Inr True
   \<and> wsd_lr_lambda (wsd_conf 0 1 2) 0 = Inr (PFloat 1)
   \<and> wsd_lr_lambda (wsd_conf 0 1 2) 0 \<noteq> Inr (PFloat (1 / real_of_int 0))
   \<and> wsd_invariant (wsd_conf (- 2) 1 2) = Inr True
   \<and> wsd_lr_lambda (wsd_conf (- 2) 1 2) 0 = Inr (PFloat 1)
   \<and> wsd_lr_lambda (wsd_conf (- 2) 1 2) 0 \<noteq> Inr (PFloat (1 / real_of_int (- 2)))"
proof -
  have k: "wsd_conf a b c ''lr_warmup_end_epochs'' = Some (PInt a)"
    "wsd_conf a b c ''lr_stable_end_epochs'' = Some (PInt b)"
    "wsd_conf a b c ''max_epochs'' = Some (PInt c)" for a b c
    by (simp_all add: wsd_conf_def)
  show ?thesis
    by (simp add: wsd_invariant_int [OF k] wsd_lr_lambda_int [OF k])
qed

text \<open>
  Claim C6, as amended. For integer epochs with
  \<open>lr_warmup_end_epochs < lr_stable_end_epochs < max_epochs\<close> and an epoch \<open>e\<close> with
  \<open>lr_stable_end_epochs \<le> e \<le> max_epochs\<close>, the multiplier is
  \<open>(e + 1 - lr_stable_end_epochs) / (max_epochs - lr_stable_end_epochs)\<close>, a linear function of
  the epoch that grows by the positive amount \<open>1 / (max_epochs - lr_stable_end_epochs)\<close> per
  epoch. One epoch past \<open>lr_stable_end_epochs\<close> it is
  \<open>2 / (max_epochs - lr_stable_end_epochs)\<close>; it is \<open>1.0\<close> exactly at epoch \<open>max_epochs - 1\<close>
  and exceeds \<open>1.0\<close> exactly at epoch \<open>max_epochs\<close>.
\<close>

theorem wsd_post_stable_phase:
  assumes "hparams ''lr_warmup_end_epochs'' = Some (PInt a)"
    and "hparams ''lr_stable_end_epochs'' = Some (PInt b)"
    and "hparams ''max_epochs'' = Some (PInt c)"
    and "a < b" and "b < c" and "b \<le> e" and "e \<le> c"
  shows "wsd_lr_lambda hparams e = Inr (PFloat (spec_post_stable b c e))
       \<and> spec_post_stable b c (e + 1) - spec_post_stable b c e
           = 1 / (real_of_int c - real_of_int b)
       \<and> 0 < 1 / (real_of_int c - real_of_int b)
       \<and> spec_post_stable b c (b + 1) = 2 / (real_of_int c - real_of_int b)
       \<and> (spec_post_stable b c e = 1 \<longleftrightarrow> e = c - 1)
       \<and> (1 < spec_post_stable b c e \<longleftrightarrow> e = c)"
proof -
  have d: "0 < real_of_int c - real_of_int b"
    using assms(5) by simp
  have v: "wsd_lr_lambda hparams e = Inr (PFloat (spec_post_stable b c e))"
    using assms(4-7) by (simp add: wsd_lr_lambda_int [OF assms(1-3)] spec_post_stable_def)
  have step: "spec_post_stable b c (e + 1) - spec_post_stable b c e
           = 1 / (real_of_int c - real_of_int b)"
    by (simp add: spec_post_stable_def diff_divide_distrib [symmetric])
  have two: "spec_post_stable b c (b + 1) = 2 / (real_of_int c - real_of_int b)"
    by (simp add: spec_post_stable_def)
  have one: "spec_post_stable b c e = 1 \<longleftrightarrow> e = c - 1"
  proof -
    have "spec_post_stable b c e = 1 \<longleftrightarrow> real_of_int (e + 1) = real_of_int c"
      using d by (auto simp: spec_post_stable_def)
    also have "\<dots> \<longleftrightarrow> e + 1 = c"
      by (simp only: of_int_eq_iff)
    also have "\<dots> \<longleftrightarrow> e = c - 1"
      by auto
    finally show ?thesis .
  qed
  have more: "1 < spec_post_stable b c e \<longleftrightarrow> e = c"
  proof -
    have "1 < spec_post_stable b c e \<longleftrightarrow> real_of_int c < real_of_int (e + 1)"
      using d by (auto simp: spec_post_stable_def)
    also have "\<dots> \<longleftrightarrow> c < e + 1"
      by (simp only: of_int_less_iff)
    also have "\<dots> \<longleftrightarrow> e = c"
      using assms(7) by auto
    finally show ?thesis .
  qed
  show ?thesis
    using v step d two one more by (intro conjI) simp_all
qed

theorem wsd_post_stable_phase_witness:
  "wsd_lr_lambda (wsd_conf 2 5 10) 6 = Inr (PFloat (2 / 5))
   \<and> wsd_lr_lambda (wsd_conf 2 5 10) 9 = Inr (PFloat 1)
   \<and> wsd_lr_lambda (wsd_conf 2 5 10) 10 = Inr (PFloat (6 / 5))"
proof -
  have k: "wsd_conf 2 5 10 ''lr_warmup_end_epochs'' = Some (PInt 2)"
    "wsd_conf 2 5 10 ''lr_stable_end_epochs'' = Some (PInt 5)"
    "wsd_conf 2 5 10 ''max_epochs'' = Some (PInt 10)"
    by (simp_all add: wsd_conf_def)
  have o: "(2 :: int) < 5" "(5 :: int) < 10"
    by simp_all
  have e6: "(5 :: int) \<le> 6" "(6 :: int) \<le> 10" and e9: "(5 :: int) \<le> 9" "(9 :: int) \<le> 10"
    and e10: "(5 :: int) \<le> 10" "(10 :: int) \<le> 10"
    by simp_all
  show ?thesis
    using wsd_post_stable_phase [OF k o e6] wsd_post_stable_phase [OF k o e9]
      wsd_post_stable_phase [OF k o e10]
    by (simp add: spec_post_stable_def)
qed

text \<open>
  The claim as written (the multiplier reaches \<open>1.0\<close> one epoch past \<open>lr_stable_end_epochs\<close>
  and increases beyond \<open>1.0\<close> afterwards) fails for warm-up end \<open>2\<close>, stable end \<open>5\<close> and
  \<open>10\<close> epochs: at epoch \<open>6\<close> the multiplier is \<open>2/5\<close>, at epoch \<open>7\<close> it is \<open>3/5\<close>, and it
  reaches \<open>1.0\<close> only at epoch \<open>9\<close>.
\<close>

theorem wsd_one_past_stable_counterexample:
  "wsd_invariant (wsd_conf 2 5 10) = Inr True
   \<and> wsd_lr_lambda (wsd_conf 2 5 10) (5 + 1) = Inr (PFloat (2 / 5))
   \<and> wsd_lr_lambda (wsd_conf 2 5 10) (5 + 1) \<noteq> Inr (PFloat 1)
   \<and> wsd_lr_lambda (wsd_conf 2 5 10) (5 + 2) = Inr (PFloat (3 / 5))
   \<and> wsd_lr_lambda (wsd_conf 2 5 10) (10 - 1) = Inr (PFloat 1)"
proof -
  have k: "wsd_conf a b c ''lr_warmup_end_epochs'' = Some (PInt a)"
    "wsd_conf a b c ''lr_stable_end_epochs'' = Some (PInt b)"
    "wsd_conf a b c ''max_epochs'' = Some (PInt c)" for a b c
    by (simp_all add: wsd_conf_def)
  show ?thesis
    by (simp add: wsd_invariant_int [OF k] wsd_lr_lambda_int [OF k])
qed

subsection \<open>Model construction\<close>

text \<open>
  Claim C7, as amended. For a \<open>model_name\<close> that does not resolve to a model
  implementation, \<open>load_model\<close> fails with the exception of the lookup that failed:
  \<open>ModuleNotFoundError\<close> when the package \<open>core.model\<close> has no module of that name, and
  \<open>AttributeError\<close> when the module exists and defines nothing of that name. It raises no
  \<open>ValueError\<close>, with any message; a name that resolves yields the model built by
  \<open>instancialize\<close>.
\<close>

theorem load_model_unknown_model:
  assumes "hparams ''model_name'' = Some (PStr name)"
  shows "(import_module (''.'' @ name) = None
            \<longrightarrow> load_model import_module hparams =
                  Inl (ModuleNotFoundError (''core.model.'' @ name)))
       \<and> (\<forall>m. import_module (''.'' @ name) = Some m \<and> m name = None
            \<longrightarrow> load_model import_module hparams = Inl (AttributeError name))
       \<and> (\<forall>m args. import_module (''.'' @ name) = Some m \<and> m name = Some args
            \<longrightarrow> load_model import_module hparams = Inr (instancialize hparams name args))
       \<and> (\<forall>msg. load_model import_module hparams \<noteq> Inl (ValueError msg))"
  using assms
  by (auto simp: load_model_def hp_def split: option.splits)

theorem load_model_unknown_model_witness:
  "load_model example_package [''model_name'' \<mapsto> PStr ''Transformer''] =
     Inl (ModuleNotFoundError ''core.model.Transformer'')
   \<and> load_model example_package [''model_name'' \<mapsto> PStr ''layers''] =
     Inl (AttributeError ''layers'')
   \<and> load_model example_package
       [''model_name'' \<mapsto> PStr ''DenseRMoK'', ''pred_len'' \<mapsto> PInt 1, ''lr'' \<mapsto> PFloat (1 / 1000)] =
     Inr \<lparr> model_class = ''DenseRMoK'', model_kwargs = [(''pred_len'', PInt 1)] \<rparr>"
proof -
  have n1: "[''model_name'' \<mapsto> PStr ''Transformer''] ''model_name'' = Some (PStr ''Transformer'')"
    by simp
  have n2: "[''model_name'' \<mapsto> PStr ''layers''] ''model_name'' = Some (PStr ''layers'')"
    by simp
  have n3: "[''model_name'' \<mapsto> PStr ''DenseRMoK'', ''pred_len'' \<mapsto> PInt 1,
             ''lr'' \<mapsto> PFloat (1 / 1000)] ''model_name'' = Some (PStr ''DenseRMoK'')"
    by simp
  have p1: "example_package (''.'' @ ''Transformer'') = None"
    by (simp add: example_package_def)
  have p2: "example_package (''.'' @ ''layers'') = Some [''RevIN'' \<mapsto> [''num_features'']]"
    by (simp add: example_package_def)
  have p3: "example_package (''.'' @ ''DenseRMoK'') =
      Some [''DenseRMoK'' \<mapsto> [''hist_len'', ''pred_len'', ''revin_affine'']]"
    by (simp add: example_package_def)
  have c1: "load_model example_package [''model_name'' \<mapsto> PStr ''Transformer''] =
     Inl (ModuleNotFoundError ''core.model.Transformer'')"
    using load_model_unknown_model [where hparams = "[''model_name'' \<mapsto> PStr ''Transformer'']"
        and import_module = example_package, OF n1] p1 by simp
  have c2: "load_model example_package [''model_name'' \<mapsto> PStr ''layers''] =
     Inl (AttributeError ''layers'')"
    using load_model_unknown_model [where hparams = "[''model_name'' \<mapsto> PStr ''layers'']"
        and import_module = example_package, OF n2] p2 by simp
  have c3: "load_model example_package
       [''model_name'' \<mapsto> PStr ''DenseRMoK'', ''pred_len'' \<mapsto> PInt 1, ''lr'' \<mapsto> PFloat (1 / 1000)] =
     Inr \<lparr> model_class = ''DenseRMoK'', model_kwargs = [(''pred_len'', PInt 1)] \<rparr>"
    using load_model_unknown_model [where hparams = "[''model_name'' \<mapsto> PStr ''DenseRMoK'',
        ''pred_len'' \<mapsto> PInt 1, ''lr'' \<mapsto> PFloat (1 / 1000)]"
        and import_module = example_package, OF n3] p3
    by (simp add: instancialize_def List.map_filter_def)
  show ?thesis
    using c1 c2 c3 by (intro conjI)
qed

text \<open>
  The claim as written (the failure is a configuration error with the message
  "Invalid model type") fails: for a name without module the result is the
  \<open>ModuleNotFoundError\<close> of the import, and \<open>load_model\<close> has no handler that would replace it.
\<close>

theorem load_model_message_counterexample:
  "load_model example_package [''model_name'' \<mapsto> PStr ''Transformer''] =
     Inl (ModuleNotFoundError ''core.model.Transformer'')
   \<and> load_model example_package [''model_name'' \<mapsto> PStr ''Transformer''] \<noteq>
     Inl (ValueError ''Invalid model type'')"
  by (simp add: load_model_def hp_def example_package_def)

subsection \<open>Batch generation of configuration files\<close>

lemma format_template_content:
  "format_template template_content [(''dataset'', symbol)] = Inr (spec_config_text symbol)"
  by (simp add: template_content_def spec_config_text_def spec_config_lines_def)

lemma new_file_name_plain:
  assumes "symbol = [] \<or> hd symbol \<noteq> CHR ''/''"
  shows "new_file_name symbol = ''/config/reproduce_conf/RMoK/'' @ symbol @ ''_30for1.py''"
  using assms
  by (cases symbol) (auto simp: new_file_name_def os_path_join_def join_step_def output_dir_def)

lemma generate_loop_fold:
  "generate_loop symbols st =
     Inr \<lparr> files = fold (\<lambda>symbol f. f(new_file_name symbol \<mapsto> spec_config_text symbol))
                      symbols (files st),
           console = console st
             @ map (\<lambda>symbol. ''Created configuration file: '' @ new_file_name symbol) symbols \<rparr>"
  by (induction symbols arbitrary: st) (simp_all add: format_template_content)

lemma fold_write_other:
  "p \<notin> name ` set symbols \<Longrightarrow>
     fold (\<lambda>symbol f. f(name symbol \<mapsto> text symbol)) symbols f0 p = f0 p"
  by (induction symbols arbitrary: f0) auto

lemma fold_write_lookup:
  "distinct (map name symbols) \<Longrightarrow> symbol \<in> set symbols \<Longrightarrow>
     fold (\<lambda>symbol f. f(name symbol \<mapsto> text symbol)) symbols f0 (name symbol)
       = Some (text symbol)"
proof (induction symbols arbitrary: f0)
  case Nil
  then show ?case by simp
next
  case (Cons s symbols)
  show ?case
  proof (cases "symbol \<in> set symbols")
    case True
    with Cons show ?thesis by simp
  next
    case False
    with Cons.prems have eq: "symbol = s" and out: "name s \<notin> name ` set symbols"
      by auto
    have "fold (\<lambda>symbol f. f(name symbol \<mapsto> text symbol)) (s # symbols) f0 (name s)
        = fold (\<lambda>symbol f. f(name symbol \<mapsto> text symbol)) symbols
            (f0(name s \<mapsto> text s)) (name s)"
      by (simp only: fold_simps)
    also have "\<dots> = (f0(name s \<mapsto> text s)) (name s)"
      by (rule fold_write_other [OF out])
    also have "\<dots> = Some (text s)"
      by simp
    finally show ?thesis
      unfolding eq .
  qed
qed

lemma fold_write_dom:
  "dom (fold (\<lambda>symbol f. f(name symbol \<mapsto> text symbol)) symbols f0)
     = dom f0 \<union> name ` set symbols"
  by (induction symbols arbitrary: f0) auto

lemma ticker_symbols_plain:
  "\<forall>symbol \<in> set ticker_symbols. symbol = [] \<or> hd symbol \<noteq> CHR ''/''"
  by (simp add: ticker_symbols_def)

lemma distinct_ticker_symbols: "distinct ticker_symbols"
  by (simp add: ticker_symbols_def)

lemma distinct_file_names: "distinct (map new_file_name ticker_symbols)"
proof -
  have "inj_on new_file_name (set ticker_symbols)"
  proof (rule inj_onI)
    fix x y
    assume "x \<in> set ticker_symbols" "y \<in> set ticker_symbols" "new_file_name x = new_file_name y"
    then show "x = y"
      using ticker_symbols_plain by (simp add: new_file_name_plain)
  qed
  then show ?thesis
    by (simp add: distinct_map distinct_ticker_symbols)
qed


text \<open>
  Claim C8. Run on any file system, \<open>generate_config_files\<close> succeeds and writes one file
  for each of the 20 ticker symbols: the 20 paths
  \<open>/config/reproduce_conf/RMoK/{SYMBOL}_30for1.py\<close> are distinct, the files of the new state
  are the old ones and these 20, the file of a symbol holds the record of
  \<open>spec_config_lines\<close> (model name \<open>DenseRMoK\<close>, the symbol as dataset name, \<open>hist_len=60\<close>,
  \<open>pred_len=1\<close>, \<open>revin_affine=False\<close>, \<open>lr=0.001\<close>), and every other file is untouched. From an
  empty file system exactly 20 files exist afterwards, and a second run leaves the files
  as the first run left them: it overwrites and adds nothing.
\<close>

theorem generate_config_files_result:
  "\<exists>st'. generate_config_files st = Inr st'
      \<and> length ticker_symbols = 20
      \<and> distinct (map new_file_name ticker_symbols)
      \<and> dom (files st') = dom (files st) \<union> set (map new_file_name ticker_symbols)
      \<and> (\<forall>symbol \<in> set ticker_symbols.
            new_file_name symbol = ''/config/reproduce_conf/RMoK/'' @ symbol @ ''_30for1.py''
            \<and> files st' (new_file_name symbol) = Some (spec_config_text symbol))
      \<and> (\<forall>p. p \<notin> set (map new_file_name ticker_symbols) \<longrightarrow> files st' p = files st p)
      \<and> (files st = Map.empty \<longrightarrow> card (dom (files st')) = 20)
      \<and> (\<exists>st''. generate_config_files st' = Inr st'' \<and> files st'' = files st')"
proof -
  define put_all where
    "put_all = fold (\<lambda>symbol f. f(new_file_name symbol \<mapsto> spec_config_text symbol)) ticker_symbols"
  define st' where
    "st' = \<lparr> files = put_all (files st),
             console = console st
               @ map (\<lambda>symbol. ''Created configuration file: '' @ new_file_name symbol)
                   ticker_symbols \<rparr>"
  have run: "generate_config_files st = Inr st'"
    by (simp add: generate_config_files_def generate_loop_fold st'_def put_all_def)
  have len: "length ticker_symbols = 20"
    by (simp add: ticker_symbols_def)
  have dom_write: "dom (put_all f) = dom f \<union> set (map new_file_name ticker_symbols)" for f
    by (simp add: put_all_def fold_write_dom)
  have written: "put_all f (new_file_name symbol) = Some (spec_config_text symbol)"
    if "symbol \<in> set ticker_symbols" for f symbol
    unfolding put_all_def by (rule fold_write_lookup [OF distinct_file_names that])
  have other: "put_all f p = f p" if "p \<notin> set (map new_file_name ticker_symbols)" for f p
    unfolding put_all_def using that by (intro fold_write_other) simp
  have names: "new_file_name symbol = ''/config/reproduce_conf/RMoK/'' @ symbol @ ''_30for1.py''"
    if "symbol \<in> set ticker_symbols" for symbol
    using that ticker_symbols_plain by (simp add: new_file_name_plain)
  have card: "card (dom (put_all Map.empty)) = 20"
    using distinct_card [OF distinct_file_names] by (simp add: dom_write len)
  have again: "put_all (put_all f) = put_all f" for f
  proof (rule ext)
    fix p
    show "put_all (put_all f) p = put_all f p"
    proof (cases "p \<in> set (map new_file_name ticker_symbols)")
      case True
      then obtain symbol where "symbol \<in> set ticker_symbols" "p = new_file_name symbol"
        by auto
      then show ?thesis
        by (simp add: written)
    next
      case False
      then show ?thesis
        by (simp add: other)
    qed
  qed
  have rerun: "\<exists>st''. generate_config_files st' = Inr st'' \<and> files st'' = files st'"
    by (simp add: generate_config_files_def generate_loop_fold st'_def put_all_def [symmetric] again)
  have f: "files st' = put_all (files st)"
    by (simp add: st'_def)
  have d: "dom (files st') = dom (files st) \<union> set (map new_file_name ticker_symbols)"
    unfolding f by (rule dom_write)
  have all_written: "\<forall>symbol \<in> set ticker_symbols.
            new_file_name symbol = ''/config/reproduce_conf/RMoK/'' @ symbol @ ''_30for1.py''
            \<and> files st' (new_file_name symbol) = Some (spec_config_text symbol)"
    unfolding f using names written by blast
  have untouched: "\<forall>p. p \<notin> set (map new_file_name ticker_symbols) \<longrightarrow> files st' p = files st p"
    unfolding f using other by blast
  have card20: "files st = Map.empty \<longrightarrow> card (dom (files st')) = 20"
    unfolding f using card by simp
  show ?thesis
    by (rule exI [of _ st'])
      (intro conjI run len distinct_file_names d all_written untouched card20 rerun)
qed

theorem generate_config_files_result_witness:
  "map_sum id (\<lambda>st'. (files st' ''/config/reproduce_conf/RMoK/AAPL_30for1.py'',
                       files st' ''/config/reproduce_conf/RMoK/WDC_30for1.py'',
                       files st' ''/config/reproduce_conf/RMoK/AAPL_60for1.py'',
                       card (dom (files st'))))
     (generate_config_files \<lparr> files = Map.empty, console = [] \<rparr>)
   = Inr (Some (spec_config_text ''AAPL''), Some (spec_config_text ''WDC''), None, 20)"
proof -
  from generate_config_files_result [of "\<lparr> files = Map.empty, console = [] \<rparr>"]
  obtain st' where run: "generate_config_files \<lparr> files = Map.empty, console = [] \<rparr> = Inr st'"
    and written: "\<forall>symbol \<in> set ticker_symbols.
            new_file_name symbol = ''/config/reproduce_conf/RMoK/'' @ symbol @ ''_30for1.py''
            \<and> files st' (new_file_name symbol) = Some (spec_config_text symbol)"
    and d: "dom (files st') = dom (files \<lparr> files = Map.empty, console = [] \<rparr>)
               \<union> set (map new_file_name ticker_symbols)"
    and c: "files \<lparr> files = Map.empty, console = [] \<rparr> = Map.empty
              \<longrightarrow> card (dom (files st')) = 20"
    by blast
  have a: "''AAPL'' \<in> set ticker_symbols" and w: "''WDC'' \<in> set ticker_symbols"
    by (simp_all add: ticker_symbols_def)
  have fa: "files st' ''/config/reproduce_conf/RMoK/AAPL_30for1.py'' = Some (spec_config_text ''AAPL'')"
    using written a by fastforce
  have fw: "files st' ''/config/reproduce_conf/RMoK/WDC_30for1.py'' = Some (spec_config_text ''WDC'')"
    using written w by fastforce
  have "''/config/reproduce_conf/RMoK/AAPL_60for1.py'' \<notin> dom (files st')"
    unfolding d using written by (auto simp: ticker_symbols_def)
  then have fn: "files st' ''/config/reproduce_conf/RMoK/AAPL_60for1.py'' = None"
    by blast
  show ?thesis
    using c by (simp add: run fa fw fn)
qed

subsection \<open>Accumulation of the test outputs\<close>

lemma test_step_accumulated:
  "test_step (accumulated outs) out = Inr (accumulated (outs @ [out]))"
  by (simp add: test_step_def accumulated_def new_runner_def append_to_def)

lemma on_test_epoch_end_reads:
  "on_test_epoch_end self = Inr (self', logged) \<Longrightarrow> self' = self"
  by (auto simp: on_test_epoch_end_def rbind_def split: option.splits sum.splits)

lemma run_test_steps:
  "run_test (accumulated pre) (map TestStep outs) = Inr (accumulated (pre @ outs))"
proof (induction outs arbitrary: pre)
  case Nil
  show ?case by simp
next
  case (Cons out outs)
  show ?case
    using Cons.IH [of "pre @ [out]"] by (simp add: test_step_accumulated)
qed

lemma run_test_events:
  "run_test (accumulated pre) es = Inr self \<Longrightarrow> self = accumulated (pre @ steps_of es)"
proof (induction es arbitrary: pre)
  case Nil
  then show ?case by simp
next
  case (Cons e es)
  show ?case
  proof (cases e)
    case (TestStep out)
    with Cons.prems have "run_test (accumulated (pre @ [out])) es = Inr self"
      by (simp add: test_step_accumulated)
    from Cons.IH [OF this] show ?thesis
      by (simp add: TestStep)
  next
    case TestEpochEnd
    with Cons.prems obtain self' logged where
      hook: "on_test_epoch_end (accumulated pre) = Inr (self', logged)"
      and rest: "run_test self' es = Inr self"
      by (cases "on_test_epoch_end (accumulated pre)") auto
    have "self' = accumulated pre"
      using on_test_epoch_end_reads [OF hook] .
    with rest Cons.IH [of pre] show ?thesis
      by (simp add: TestEpochEnd)
  qed
qed

text \<open>
  Claim C10. From a new runner, any sequence of test steps succeeds and leaves the
  accumulators of \<open>accumulated\<close>: none of the five attributes before the first step, and
  afterwards all five, each a list with one entry per step taken, in order; one more
  test step appends one entry to each. \<open>on_test_epoch_end\<close> returns the runner it was given,
  and a test loop that interleaves test steps with \<open>on_test_epoch_end\<close> calls ends, when it
  ends without exception, with the accumulators of its test steps alone.
\<close>

theorem test_accumulators_parallel:
  "run_test new_runner (map TestStep outs) = Inr (accumulated outs)
   \<and> test_step (accumulated outs) out = Inr (accumulated (outs @ [out]))
   \<and> (outs = [] \<longrightarrow> accumulated outs = new_runner)
   \<and> (outs \<noteq> [] \<longrightarrow>
        map_option length (predictions_tomorrow (accumulated outs)) = Some (length outs)
        \<and> map_option length (true_prices_tomorrow (accumulated outs)) = Some (length outs)
        \<and> map_option length (true_prices_today (accumulated outs)) = Some (length outs)
        \<and> map_option length (confidences (accumulated outs)) = Some (length outs)
        \<and> map_option length (custom_losses (accumulated outs)) = Some (length outs))
   \<and> (\<forall>self' logged. on_test_epoch_end (accumulated outs) = Inr (self', logged)
        \<longrightarrow> self' = accumulated outs)
   \<and> (\<forall>self. run_test new_runner es = Inr self \<longrightarrow> self = accumulated (steps_of es))"
proof -
  have start: "accumulated [] = new_runner"
    by (simp add: accumulated_def)
  have steps: "run_test new_runner (map TestStep outs) = Inr (accumulated outs)"
    using run_test_steps [of "[]" outs] by (simp add: start)
  have events: "\<forall>self. run_test new_runner es = Inr self \<longrightarrow> self = accumulated (steps_of es)"
    using run_test_events [of "[]" es] by (simp add: start)
  have hook: "\<forall>self' logged. on_test_epoch_end (accumulated outs) = Inr (self', logged)
        \<longrightarrow> self' = accumulated outs"
    using on_test_epoch_end_reads by blast
  have lens: "outs \<noteq> [] \<longrightarrow>
        map_option length (predictions_tomorrow (accumulated outs)) = Some (length outs)
        \<and> map_option length (true_prices_tomorrow (accumulated outs)) = Some (length outs)
        \<and> map_option length (true_prices_today (accumulated outs)) = Some (length outs)
        \<and> map_option length (confidences (accumulated outs)) = Some (length outs)
        \<and> map_option length (custom_losses (accumulated outs)) = Some (length outs)"
    by (simp add: accumulated_def)
  have empty: "outs = [] \<longrightarrow> accumulated outs = new_runner"
    by (simp add: accumulated_def)
  show ?thesis
    by (intro conjI steps test_step_accumulated empty lens hook events)
qed

theorem test_accumulators_parallel_witness:
  "run_test new_runner (map TestStep example_outputs) =
     Inr \<lparr> predictions_tomorrow = Some [110, 90], true_prices_tomorrow = Some [105, 105],
            true_prices_today = Some [100, 100], confidences = Some [1 / 2, 1 / 4],
            custom_losses = Some [25, 1125] \<rparr>
   \<and> on_test_epoch_end (accumulated example_outputs) =
     Inr (accumulated example_outputs,
          Some \<lparr> average_daily_return = Some 0, cumulative_return = - (1 / 400),
                 loss_days = 1, total_profits = 0 \<rparr>)"
proof -
  have acc: "accumulated example_outputs =
      \<lparr> predictions_tomorrow = Some [110, 90], true_prices_tomorrow = Some [105, 105],
        true_prices_today = Some [100, 100], confidences = Some [1 / 2, 1 / 4],
        custom_losses = Some [25, 1125] \<rparr>"
    by (simp add: accumulated_def example_outputs_def)
  have up: "[0 ..< 2] = [0, Suc 0]"
    by (simp add: upt_rec)
  have ev: "evaluate_trading_strategy [110, 90] [105, 105] [100, 100] =
     Inr \<lparr> average_daily_return = Some 0, cumulative_return = - (1 / 400),
            loss_days = 1, total_profits = 0 \<rparr>"
    by (simp add: evaluate_trading_strategy_def up strategy_day_def item_def np_mean_def)
  have hook: "on_test_epoch_end (accumulated example_outputs) =
     Inr (accumulated example_outputs,
          Some \<lparr> average_daily_return = Some 0, cumulative_return = - (1 / 400),
                 loss_days = 1, total_profits = 0 \<rparr>)"
    unfolding acc by (simp add: on_test_epoch_end_def ev)
  show ?thesis
    using test_accumulators_parallel [of example_outputs "example_outputs ! 0" "[]"] hook
    by (simp add: acc)
qed

end
